theory Spec2Isabelle
  imports Complex_Main
begin

section \<open>Values, events and the host document\<close>

text \<open>
  The module under verification is \<^verbatim>\<open>src/bodyScrollLock.js\<close>.  A lock target is a DOM
  element handle or is absent; \<^verbatim>\<open>===\<close> on these values is identity, which is equality
  of the constructors below.
\<close>

datatype jsval = Undefined | Null | Elem nat

fun truthy :: "jsval \<Rightarrow> bool" where
  "truthy (Elem n) = True"
| "truthy Undefined = False"
| "truthy Null = False"

datatype js_error = TypeError

text \<open>
  Closures are identified by the variables they capture: the body-level listener made by
  \<^verbatim>\<open>disableBodyScroll\<close> captures its \<^verbatim>\<open>targetElement\<close>, the \<^verbatim>\<open>ontouchmove\<close> callback
  too, the \<^verbatim>\<open>ontouchstart\<close> callback captures nothing.  Listeners and callbacks that the
  embedding page installed itself are opaque and carry a number.
\<close>

datatype listener = BodyHandler jsval | ForeignListener nat

datatype callback = OnTouchStart | OnTouchMove jsval | ForeignCallback nat

datatype event_type = Touchstart | Touchmove

record element =
  ontouchstart :: "callback option"
  ontouchmove :: "callback option"
  scrollTop :: real
  scrollHeight :: real
  clientHeight :: real

text \<open>A touch event: the \<^verbatim>\<open>clientY\<close> of each entry of \<^verbatim>\<open>targetTouches\<close>, the node
  \<^verbatim>\<open>event.target\<close> the gesture started on, and whether \<^verbatim>\<open>preventDefault\<close> has been
  called on the event.\<close>

record touch_event =
  targetTouches :: "real list"
  event_target :: nat
  defaultPrevented :: bool

text \<open>What \<^verbatim>\<open>window.navigator.platform\<close> reports: there may be no \<^verbatim>\<open>window\<close>, no
  \<^verbatim>\<open>navigator\<close>, or no \<^verbatim>\<open>platform\<close> string.\<close>

datatype host = NoWindow | NoNavigator | Navigator "string option"

record BodyScrollOptions =
  reserveScrollBarGap :: "bool option"

text \<open>The callbacks handed to \<^verbatim>\<open>setTimeout\<close>, waiting on the host's task queue.\<close>

datatype timer = SetOverflowHiddenTimer "BodyScrollOptions option" | RestoreOverflowSettingTimer

text \<open>
  The part of the host document the module reads or writes.  Coordinates and scroll
  offsets are reals, since the browser reports fractional values; the two widths are the
  integers the browser reports.  The widths and the containment of nodes are measurements
  of the layout and of the tree: the module reads them and never writes them.
\<close>

record dom =
  navigator :: host
  body_overflow :: string
  body_paddingRight :: string
  documentElement_overflow :: string
  innerWidth :: int
  documentElement_clientWidth :: int
  body_listeners :: "(event_type \<times> listener) list"
  elements :: "nat \<Rightarrow> element"
  node_contains :: "nat \<Rightarrow> nat \<Rightarrow> bool"

text \<open>The module's variables, on top of the document they act on.  \<^verbatim>\<open>undefined\<close> in the
  three \<^verbatim>\<open>previous...\<close> variables is \<open>None\<close>; \<open>timers\<close> holds the callbacks the module has
  queued and the host has not run yet.\<close>

record state = dom +
  timers :: "timer list"
  isIosDevice :: bool
  firstTargetElement :: jsval
  allTargetElements :: "jsval list"
  initialClientY :: real
  previousBodyOverflowSetting :: "string option"
  previousDocumentElementOverflowSetting :: "string option"
  previousBodyPaddingRight :: "string option"
  handlers :: "(jsval \<times> listener) list"

type_synonym outcome = "(js_error \<times> state) + state"

section \<open>Platform detection\<close>

fun startsWith :: "string \<Rightarrow> string \<Rightarrow> bool" where
  "startsWith [] s = True"
| "startsWith (p # ps) [] = False"
| "startsWith (p # ps) (c # cs) = (p = c \<and> startsWith ps cs)"

fun str_includes :: "string \<Rightarrow> string \<Rightarrow> bool" where
  "str_includes p [] = startsWith p []"
| "str_includes p (c # cs) = (startsWith p (c # cs) \<or> str_includes p cs)"

text \<open>The unanchored regular expression of line 13: an alternation of six literals.\<close>

definition platform_regex_test :: "string \<Rightarrow> bool" where
  "platform_regex_test p =
     list_ex (\<lambda>alt. str_includes alt p)
       [''iPad'', ''iPhone'', ''iPod'', ''iPad Simulator'', ''iPhone Simulator'',
        ''iPod Simulator'']"

fun detect_isIosDevice :: "host \<Rightarrow> bool" where
  "detect_isIosDevice NoWindow = False"
| "detect_isIosDevice NoNavigator = False"
| "detect_isIosDevice (Navigator None) = False"
| "detect_isIosDevice (Navigator (Some p)) = (p \<noteq> [] \<and> platform_regex_test p)"

text \<open>Evaluating the module: the constant and the initial values of lines 9 to 21 and 99.\<close>

definition module_load :: "dom \<Rightarrow> state" where
  "module_load d =
     \<lparr> navigator = navigator d,
       body_overflow = body_overflow d,
       body_paddingRight = body_paddingRight d,
       documentElement_overflow = documentElement_overflow d,
       innerWidth = innerWidth d,
       documentElement_clientWidth = documentElement_clientWidth d,
       body_listeners = body_listeners d,
       elements = elements d,
       node_contains = node_contains d,
       timers = [],
       isIosDevice = detect_isIosDevice (navigator d),
       firstTargetElement = Null,
       allTargetElements = [],
       initialClientY = - 1,
       previousBodyOverflowSetting = None,
       previousDocumentElementOverflowSetting = None,
       previousBodyPaddingRight = None,
       handlers = [] \<rparr>"

section \<open>The standard path: overflow and padding\<close>

definition digit_char :: "nat \<Rightarrow> char" where
  "digit_char d = ''0123456789'' ! d"

fun string_of_nat :: "nat \<Rightarrow> string" where
  "string_of_nat n =
     (if n < 10 then [digit_char n] else string_of_nat (n div 10) @ [digit_char (n mod 10)])"

definition string_of_int :: "int \<Rightarrow> string" where
  "string_of_int i = (if i < 0 then CHR ''-'' # string_of_nat (nat (- i)) else string_of_nat (nat i))"

definition setTimeout :: "timer \<Rightarrow> state \<Rightarrow> state" where
  "setTimeout t s = s\<lparr>timers := timers s @ [t]\<rparr>"

definition setOverflowHidden_callback :: "BodyScrollOptions option \<Rightarrow> state \<Rightarrow> state" where
  "setOverflowHidden_callback options s =
     (let s1 =
        (if previousBodyPaddingRight s = None then
           (let reserve = (case options of None \<Rightarrow> False
                           | Some opt \<Rightarrow> reserveScrollBarGap opt = Some True);
                scrollBarGap = innerWidth s - documentElement_clientWidth s
            in if reserve \<and> scrollBarGap > 0
               then s\<lparr>previousBodyPaddingRight := Some (body_paddingRight s),
                      body_paddingRight := string_of_int scrollBarGap @ ''px''\<rparr>
               else s)
         else s)
      in if previousBodyOverflowSetting s1 = None
         then s1\<lparr>previousBodyOverflowSetting := Some (body_overflow s1),
                 previousDocumentElementOverflowSetting := Some (documentElement_overflow s1),
                 body_overflow := ''hidden'',
                 documentElement_overflow := ''hidden''\<rparr>
         else s1)"

definition setOverflowHidden :: "BodyScrollOptions option \<Rightarrow> state \<Rightarrow> state" where
  "setOverflowHidden options s = setTimeout (SetOverflowHiddenTimer options) s"

definition restoreOverflowSetting_callback :: "state \<Rightarrow> state" where
  "restoreOverflowSetting_callback s =
     (let s1 =
        (case previousBodyPaddingRight s of
           Some p \<Rightarrow> s\<lparr>body_paddingRight := p, previousBodyPaddingRight := None\<rparr>
         | None \<Rightarrow> s)
      in case previousBodyOverflowSetting s1 of
           Some v \<Rightarrow>
             s1\<lparr>body_overflow := v,
                documentElement_overflow :=
                  (case previousDocumentElementOverflowSetting s1 of
                     Some w \<Rightarrow> w | None \<Rightarrow> documentElement_overflow s1),
                previousBodyOverflowSetting := None,
                previousDocumentElementOverflowSetting := None\<rparr>
         | None \<Rightarrow> s1)"

definition restoreOverflowSetting :: "state \<Rightarrow> state" where
  "restoreOverflowSetting s = setTimeout RestoreOverflowSettingTimer s"

fun run_timer :: "timer \<Rightarrow> state \<Rightarrow> state" where
  "run_timer (SetOverflowHiddenTimer options) s = setOverflowHidden_callback options s"
| "run_timer RestoreOverflowSettingTimer s = restoreOverflowSetting_callback s"

text \<open>The host runs the queued callbacks in the order they were queued: one of them, or
  all that are waiting.\<close>

definition runNextTimer :: "state \<Rightarrow> state" where
  "runNextTimer s = (case timers s of [] \<Rightarrow> s | t # ts \<Rightarrow> run_timer t (s\<lparr>timers := ts\<rparr>))"

definition runAllTimers :: "state \<Rightarrow> state" where
  "runAllTimers s = fold run_timer (timers s) (s\<lparr>timers := []\<rparr>)"

section \<open>The touch path: registry, listeners and gesture callbacks\<close>

text \<open>The \<^verbatim>\<open>Map\<close> of line 99, in insertion order: \<^verbatim>\<open>set\<close> overwrites the entry of a key
  that is present and appends otherwise.\<close>

fun map_set :: "jsval \<Rightarrow> listener \<Rightarrow> (jsval \<times> listener) list \<Rightarrow> (jsval \<times> listener) list" where
  "map_set k v [] = [(k, v)]"
| "map_set k v (p # ps) = (if fst p = k then (k, v) # ps else p # map_set k v ps)"

fun map_get :: "(jsval \<times> listener) list \<Rightarrow> jsval \<Rightarrow> listener option" where
  "map_get [] k = None"
| "map_get (p # ps) k = (if fst p = k then Some (snd p) else map_get ps k)"

definition map_delete :: "jsval \<Rightarrow> (jsval \<times> listener) list \<Rightarrow> (jsval \<times> listener) list" where
  "map_delete k ps = filter (\<lambda>p. fst p \<noteq> k) ps"

text \<open>
  The listener list of \<^verbatim>\<open>document.body\<close>.  The host never stores the same type and
  callback twice, and ignores an absent callback; the list holding no duplicates, removing
  a listener removes every entry equal to it.
\<close>

definition add_listener ::
  "event_type \<Rightarrow> listener option \<Rightarrow> (event_type \<times> listener) list \<Rightarrow> (event_type \<times> listener) list" where
  "add_listener ty cb ls =
     (case cb of
        None \<Rightarrow> ls
      | Some l \<Rightarrow> if (ty, l) \<in> set ls then ls else ls @ [(ty, l)])"

definition remove_listener ::
  "event_type \<Rightarrow> listener option \<Rightarrow> (event_type \<times> listener) list \<Rightarrow> (event_type \<times> listener) list" where
  "remove_listener ty cb ls =
     (case cb of
        None \<Rightarrow> ls
      | Some l \<Rightarrow> removeAll (ty, l) ls)"

definition addEventListener :: "event_type \<Rightarrow> listener option \<Rightarrow> state \<Rightarrow> state" where
  "addEventListener ty cb s = s\<lparr>body_listeners := add_listener ty cb (body_listeners s)\<rparr>"

definition removeEventListener :: "event_type \<Rightarrow> listener option \<Rightarrow> state \<Rightarrow> state" where
  "removeEventListener ty cb s = s\<lparr>body_listeners := remove_listener ty cb (body_listeners s)\<rparr>"

text \<open>Assigning a property of the target: a \<^verbatim>\<open>TypeError\<close> when the target is
  \<^verbatim>\<open>null\<close> or \<^verbatim>\<open>undefined\<close>.  The state travels with the error, since what was done
  before the throw stays done.\<close>

fun set_ontouchstart :: "jsval \<Rightarrow> callback option \<Rightarrow> state \<Rightarrow> outcome" where
  "set_ontouchstart (Elem n) c s =
     Inr (s\<lparr>elements := (elements s)(n := (elements s n)\<lparr>ontouchstart := c\<rparr>)\<rparr>)"
| "set_ontouchstart Undefined c s = Inl (TypeError, s)"
| "set_ontouchstart Null c s = Inl (TypeError, s)"

fun set_ontouchmove :: "jsval \<Rightarrow> callback option \<Rightarrow> state \<Rightarrow> outcome" where
  "set_ontouchmove (Elem n) c s =
     Inr (s\<lparr>elements := (elements s)(n := (elements s n)\<lparr>ontouchmove := c\<rparr>)\<rparr>)"
| "set_ontouchmove Undefined c s = Inl (TypeError, s)"
| "set_ontouchmove Null c s = Inl (TypeError, s)"

definition andThen :: "outcome \<Rightarrow> (state \<Rightarrow> outcome) \<Rightarrow> outcome" where
  "andThen r f = (case r of Inl err \<Rightarrow> Inl err | Inr s \<Rightarrow> f s)"

text \<open>\<^verbatim>\<open>forEach\<close> with a callback that may throw: the first throw ends the loop.\<close>

fun forEach :: "('a \<Rightarrow> state \<Rightarrow> outcome) \<Rightarrow> 'a list \<Rightarrow> state \<Rightarrow> outcome" where
  "forEach f [] s = Inr s"
| "forEach f (x # xs) s = andThen (f x s) (forEach f xs)"

definition state_of :: "outcome \<Rightarrow> state" where
  "state_of r = (case r of Inl (err, s) \<Rightarrow> s | Inr s \<Rightarrow> s)"

definition raises :: "outcome \<Rightarrow> bool" where
  "raises r = (case r of Inl err \<Rightarrow> True | Inr s \<Rightarrow> False)"

subsection \<open>Gesture handling, lines 23 to 97\<close>




text \<open>The two callbacks of lines 121 to 132.  The first writes the module's
  \<^verbatim>\<open>initialClientY\<close>; the second only acts on the event, which it returns.\<close>

definition ontouchstart_callback :: "touch_event \<Rightarrow> state \<Rightarrow> state" where
  "ontouchstart_callback event s =
     (if length (targetTouches event) = 1
      then s\<lparr>initialClientY := hd (targetTouches event)\<rparr>
      else s)"


text \<open>The body-level listener of lines 108 to 112, for the target it captured:
  \<^verbatim>\<open>targetElement.contains(event.target)\<close> is the document's containment of nodes.\<close>

definition body_handler_callback :: "jsval \<Rightarrow> touch_event \<Rightarrow> state \<Rightarrow> js_error + touch_event" where
  "body_handler_callback targetElement event s =
     (case targetElement of
        Elem n \<Rightarrow>
          if \<not> node_contains s n (event_target event)
          then Inr (event\<lparr>defaultPrevented := True\<rparr>)
          else Inr event
      | _ \<Rightarrow> Inl TypeError)"

subsection \<open>The three exported operations, lines 101 to 188\<close>

definition disableBodyScroll :: "jsval \<Rightarrow> BodyScrollOptions option \<Rightarrow> state \<Rightarrow> state" where
  "disableBodyScroll targetElement options s =
     (let s1 =
        (if isIosDevice s then
           (case targetElement of
              Elem n \<Rightarrow>
                if targetElement \<notin> set (allTargetElements s) then
                  (let sa = s\<lparr>allTargetElements := allTargetElements s @ [targetElement]\<rparr>;
                       sb = sa\<lparr>handlers :=
                                 map_set targetElement (BodyHandler targetElement) (handlers sa)\<rparr>;
                       sc = addEventListener Touchstart (map_get (handlers sb) targetElement) sb;
                       sd = addEventListener Touchmove (map_get (handlers sc) targetElement) sc
                   in sd\<lparr>elements := (elements sd)
                           (n := (elements sd n)
                              \<lparr>ontouchstart := Some OnTouchStart,
                               ontouchmove := Some (OnTouchMove targetElement)\<rparr>)\<rparr>)
                else s
            | _ \<Rightarrow> s)
         else setOverflowHidden options s)
      in if \<not> truthy (firstTargetElement s1)
         then s1\<lparr>firstTargetElement := targetElement\<rparr>
         else s1)"

text \<open>The bodies of the three \<^verbatim>\<open>forEach\<close> callbacks, lines 143 to 146, 150 to 155 and
  168 to 178.\<close>

definition clear_handler :: "listener \<Rightarrow> state \<Rightarrow> state" where
  "clear_handler handler s =
     removeEventListener Touchmove (Some handler)
       (removeEventListener Touchstart (Some handler) s)"

definition clear_target :: "jsval \<Rightarrow> state \<Rightarrow> outcome" where
  "clear_target targetElement s =
     andThen (set_ontouchstart targetElement None s)
       (\<lambda>s1. andThen (set_ontouchmove targetElement None s1)
          (\<lambda>s2. Inr (s2\<lparr>allTargetElements := []\<rparr>)))"

definition enable_target :: "jsval \<Rightarrow> jsval \<Rightarrow> state \<Rightarrow> state" where
  "enable_target targetElement target s =
     (if targetElement = target then
        (let sa = removeEventListener Touchstart (map_get (handlers s) targetElement) s;
             sb = removeEventListener Touchmove (map_get (handlers sa) targetElement) sa;
             sc = sb\<lparr>handlers := map_delete targetElement (handlers sb)\<rparr>
         in if targetElement = firstTargetElement sc
            then sc\<lparr>firstTargetElement := Null\<rparr>
            else sc)
      else s)"

definition clearAllBodyScrollLocks :: "state \<Rightarrow> outcome" where
  "clearAllBodyScrollLocks s =
     andThen
       (if isIosDevice s then
          (let s1 = fold clear_handler (map snd (handlers s)) s;
               s2 = s1\<lparr>handlers := []\<rparr>
           in andThen (forEach clear_target (allTargetElements s2) s2)
                (\<lambda>s3. Inr (s3\<lparr>initialClientY := - 1\<rparr>)))
        else Inr (restoreOverflowSetting s))
       (\<lambda>s4. Inr (s4\<lparr>firstTargetElement := Null\<rparr>))"

definition enableBodyScroll :: "jsval \<Rightarrow> state \<Rightarrow> outcome" where
  "enableBodyScroll targetElement s =
     (if isIosDevice s then
        (let s1 = fold (enable_target targetElement) (allTargetElements s) s
         in andThen (set_ontouchstart targetElement None s1)
              (\<lambda>s2. andThen (set_ontouchmove targetElement None s2)
                 (\<lambda>s3. Inr (s3\<lparr>allTargetElements :=
                                 filter (\<lambda>elem. elem \<noteq> targetElement) (allTargetElements s3)\<rparr>))))
      else if firstTargetElement s = targetElement then
        Inr ((restoreOverflowSetting s)\<lparr>firstTargetElement := Null\<rparr>)
      else Inr s)"

section \<open>Histories of the module\<close>

text \<open>
  What can happen to a loaded module: the three operations are called, a queued timer
  fires, or the browser invokes the \<^verbatim>\<open>ontouchstart\<close> or \<^verbatim>\<open>ontouchmove\<close> property of an
  element.  An operation that throws leaves the state it had reached.  A callback of the
  page's own cannot reach the module's variables, which are private to the module, so
  invoking one is no step of the module; the \<^verbatim>\<open>ontouchmove\<close> callback of the module
  acts on the event only.
\<close>

datatype action =
    Lock jsval "BodyScrollOptions option"
  | Unlock jsval
  | UnlockAll
  | RunTimer
  | TouchStartOn nat touch_event
  | TouchMoveOn nat touch_event

fun step :: "action \<Rightarrow> state \<Rightarrow> state" where
  "step (Lock t options) s = disableBodyScroll t options s"
| "step (Unlock t) s = state_of (enableBodyScroll t s)"
| "step UnlockAll s = state_of (clearAllBodyScrollLocks s)"
| "step RunTimer s = runNextTimer s"
| "step (TouchStartOn n event) s =
     (case ontouchstart (elements s n) of
        Some OnTouchStart \<Rightarrow> ontouchstart_callback event s
      | _ \<Rightarrow> s)"
| "step (TouchMoveOn n event) s = s"

fun run :: "action list \<Rightarrow> state \<Rightarrow> state" where
  "run [] s = s"
| "run (a # as) s = run as (step a s)"




section \<open>Concrete documents\<close>

definition iPhone :: host where
  "iPhone = Navigator (Some ''iPhone'')"

definition desktop :: host where
  "desktop = Navigator (Some ''Win32'')"

definition plain_element :: element where
  "plain_element =
     \<lparr> ontouchstart = Some (ForeignCallback 7), ontouchmove = None,
       scrollTop = 0, scrollHeight = 300, clientHeight = 100 \<rparr>"

definition page :: "host \<Rightarrow> int \<Rightarrow> dom" where
  "page h w =
     \<lparr> navigator = h, body_overflow = ''auto'', body_paddingRight = ''3px'',
       documentElement_overflow = ''scroll'', innerWidth = w,
       documentElement_clientWidth = 1000,
       body_listeners = [(Touchstart, ForeignListener 0)],
       elements = (\<lambda>n. plain_element),
       node_contains = (\<lambda>a b. a = b) \<rparr>"

definition single_touch :: "real \<Rightarrow> touch_event" where
  "single_touch y = \<lparr> targetTouches = [y], event_target = 1, defaultPrevented = False \<rparr>"

definition gap_option :: "BodyScrollOptions option" where
  "gap_option = Some \<lparr> reserveScrollBarGap = Some True \<rparr>"

section \<open>Auxiliary notions for the statements\<close>

text \<open>The condition of lines 35 to 39 under which the timer callback of
  \<^verbatim>\<open>setOverflowHidden\<close> reserves the scrollbar gap.\<close>

definition reserves_gap :: "BodyScrollOptions option \<Rightarrow> state \<Rightarrow> bool" where
  "reserves_gap options s \<longleftrightarrow>
     (\<exists>opt. options = Some opt \<and> reserveScrollBarGap opt = Some True)
     \<and> 0 < innerWidth s - documentElement_clientWidth s
     \<and> previousBodyPaddingRight s = None"

text \<open>The host changing what \<^verbatim>\<open>window.navigator.platform\<close> reports, and a change of the
  state carried through the outcome of an operation.\<close>

definition set_navigator :: "host \<Rightarrow> state \<Rightarrow> state" where
  "set_navigator h s = s\<lparr>navigator := h\<rparr>"

definition outcome_map :: "(state \<Rightarrow> state) \<Rightarrow> outcome \<Rightarrow> outcome" where
  "outcome_map f r = (case r of Inl (err, s) \<Rightarrow> Inl (err, f s) | Inr s \<Rightarrow> Inr (f s))"

text \<open>List-level pictures of the two loops of \<^verbatim>\<open>clearAllBodyScrollLocks\<close>: the listeners
  left on the body, and the elements with their two gesture callbacks set to \<^verbatim>\<open>null\<close>.\<close>

definition drop_handler ::
  "listener \<Rightarrow> (event_type \<times> listener) list \<Rightarrow> (event_type \<times> listener) list" where
  "drop_handler l ls = remove_listener Touchmove (Some l) (remove_listener Touchstart (Some l) ls)"

fun null_callbacks :: "jsval \<Rightarrow> (nat \<Rightarrow> element) \<Rightarrow> (nat \<Rightarrow> element)" where
  "null_callbacks (Elem n) els = els(n := (els n)\<lparr>ontouchstart := None, ontouchmove := None\<rparr>)"
| "null_callbacks Undefined els = els"
| "null_callbacks Null els = els"

text \<open>A document in which no element carries the module's \<^verbatim>\<open>ontouchstart\<close> closure yet:
  the closure is created by \<^verbatim>\<open>disableBodyScroll\<close>, so this holds of every document the
  module is loaded into.\<close>

definition pristine :: "dom \<Rightarrow> bool" where
  "pristine d \<longleftrightarrow> (\<forall>n. ontouchstart (elements d n) \<noteq> Some OnTouchStart)"

text \<open>The registry invariant: registered targets are elements, each once, each with its
  handler in the map; the standard path registers nothing and leaves elements and gesture
  origin alone; the touch path queues nothing and holds no saved style.\<close>

definition registry_inv :: "dom \<Rightarrow> state \<Rightarrow> bool" where
  "registry_inv d s \<longleftrightarrow>
     (\<forall>t \<in> set (allTargetElements s). truthy t)
     \<and> distinct (allTargetElements s)
     \<and> handlers s = map (\<lambda>t. (t, BodyHandler t)) (allTargetElements s)
     \<and> (\<not> isIosDevice s \<longrightarrow>
          allTargetElements s = [] \<and> initialClientY s = - 1 \<and> elements s = elements d
          \<and> body_listeners s = body_listeners d)
     \<and> (isIosDevice s \<longrightarrow>
          timers s = [] \<and> previousBodyOverflowSetting s = None
          \<and> previousDocumentElementOverflowSetting s = None
          \<and> previousBodyPaddingRight s = None)"




text \<open>The saved styles are the document's own: whatever is held in the \<^verbatim>\<open>previous...\<close>
  variables is the value the document \<open>d\<close> had, and what is not held is still in place.\<close>

definition styles_kept :: "dom \<Rightarrow> state \<Rightarrow> bool" where
  "styles_kept d s \<longleftrightarrow>
     (case previousBodyOverflowSetting s of
        None \<Rightarrow> body_overflow s = body_overflow d
                \<and> documentElement_overflow s = documentElement_overflow d
                \<and> previousDocumentElementOverflowSetting s = None
      | Some v \<Rightarrow> v = body_overflow d
                \<and> previousDocumentElementOverflowSetting s = Some (documentElement_overflow d))
     \<and> (case previousBodyPaddingRight s of
          None \<Rightarrow> body_paddingRight s = body_paddingRight d
        | Some p \<Rightarrow> p = body_paddingRight d)"

text \<open>Two states that agree on the overflow and padding styles and on what is saved of
  them.\<close>

definition same_styles :: "state \<Rightarrow> state \<Rightarrow> bool" where
  "same_styles s s' \<longleftrightarrow>
     body_overflow s' = body_overflow s
     \<and> documentElement_overflow s' = documentElement_overflow s
     \<and> body_paddingRight s' = body_paddingRight s
     \<and> previousBodyOverflowSetting s' = previousBodyOverflowSetting s
     \<and> previousDocumentElementOverflowSetting s' = previousDocumentElementOverflowSetting s
     \<and> previousBodyPaddingRight s' = previousBodyPaddingRight s"

section \<open>Basic facts about the host operations\<close>

lemma addEventListener_fields [simp]:
  "navigator (addEventListener ty cb s) = navigator s"
  "body_overflow (addEventListener ty cb s) = body_overflow s"
  "body_paddingRight (addEventListener ty cb s) = body_paddingRight s"
  "documentElement_overflow (addEventListener ty cb s) = documentElement_overflow s"
  "innerWidth (addEventListener ty cb s) = innerWidth s"
  "documentElement_clientWidth (addEventListener ty cb s) = documentElement_clientWidth s"
  "elements (addEventListener ty cb s) = elements s"
  "timers (addEventListener ty cb s) = timers s"
  "isIosDevice (addEventListener ty cb s) = isIosDevice s"
  "firstTargetElement (addEventListener ty cb s) = firstTargetElement s"
  "allTargetElements (addEventListener ty cb s) = allTargetElements s"
  "initialClientY (addEventListener ty cb s) = initialClientY s"
  "previousBodyOverflowSetting (addEventListener ty cb s) = previousBodyOverflowSetting s"
  "previousDocumentElementOverflowSetting (addEventListener ty cb s) =
     previousDocumentElementOverflowSetting s"
  "previousBodyPaddingRight (addEventListener ty cb s) = previousBodyPaddingRight s"
  "handlers (addEventListener ty cb s) = handlers s"
  by (simp_all add: addEventListener_def)

lemma removeEventListener_fields [simp]:
  "navigator (removeEventListener ty cb s) = navigator s"
  "body_overflow (removeEventListener ty cb s) = body_overflow s"
  "body_paddingRight (removeEventListener ty cb s) = body_paddingRight s"
  "documentElement_overflow (removeEventListener ty cb s) = documentElement_overflow s"
  "innerWidth (removeEventListener ty cb s) = innerWidth s"
  "documentElement_clientWidth (removeEventListener ty cb s) = documentElement_clientWidth s"
  "elements (removeEventListener ty cb s) = elements s"
  "timers (removeEventListener ty cb s) = timers s"
  "isIosDevice (removeEventListener ty cb s) = isIosDevice s"
  "firstTargetElement (removeEventListener ty cb s) = firstTargetElement s"
  "allTargetElements (removeEventListener ty cb s) = allTargetElements s"
  "initialClientY (removeEventListener ty cb s) = initialClientY s"
  "previousBodyOverflowSetting (removeEventListener ty cb s) = previousBodyOverflowSetting s"
  "previousDocumentElementOverflowSetting (removeEventListener ty cb s) =
     previousDocumentElementOverflowSetting s"
  "previousBodyPaddingRight (removeEventListener ty cb s) = previousBodyPaddingRight s"
  "handlers (removeEventListener ty cb s) = handlers s"
  by (simp_all add: removeEventListener_def)

lemma module_load_fields [simp]:
  "navigator (module_load d) = navigator d"
  "body_overflow (module_load d) = body_overflow d"
  "body_paddingRight (module_load d) = body_paddingRight d"
  "documentElement_overflow (module_load d) = documentElement_overflow d"
  "innerWidth (module_load d) = innerWidth d"
  "documentElement_clientWidth (module_load d) = documentElement_clientWidth d"
  "body_listeners (module_load d) = body_listeners d"
  "elements (module_load d) = elements d"
  "node_contains (module_load d) = node_contains d"
  "timers (module_load d) = []"
  "isIosDevice (module_load d) = detect_isIosDevice (navigator d)"
  "firstTargetElement (module_load d) = Null"
  "allTargetElements (module_load d) = []"
  "initialClientY (module_load d) = - 1"
  "previousBodyOverflowSetting (module_load d) = None"
  "previousDocumentElementOverflowSetting (module_load d) = None"
  "previousBodyPaddingRight (module_load d) = None"
  "handlers (module_load d) = []"
  by (simp_all add: module_load_def)

lemma page_fields [simp]:
  "navigator (page h w) = h"
  "body_overflow (page h w) = ''auto''"
  "body_paddingRight (page h w) = ''3px''"
  "documentElement_overflow (page h w) = ''scroll''"
  "innerWidth (page h w) = w"
  "documentElement_clientWidth (page h w) = 1000"
  "body_listeners (page h w) = [(Touchstart, ForeignListener 0)]"
  "elements (page h w) n = plain_element"
  "node_contains (page h w) a b = (a = b)"
  by (simp_all add: page_def)

lemma detect_iPhone [simp]: "detect_isIosDevice iPhone"
  by (simp add: iPhone_def platform_regex_test_def)

lemma detect_desktop [simp]: "\<not> detect_isIosDevice desktop"
  by (simp add: desktop_def platform_regex_test_def)

section \<open>The touchmove callback of a locked target\<close>


lemma lock_installs_callbacks:
  "isIosDevice s \<Longrightarrow> Elem n \<notin> set (allTargetElements s) \<Longrightarrow>
   ontouchstart (elements (disableBodyScroll (Elem n) options s) n) = Some OnTouchStart
   \<and> ontouchmove (elements (disableBodyScroll (Elem n) options s) n) = Some (OnTouchMove (Elem n))"
  by (simp add: disableBodyScroll_def Let_def)

lemma touch_example_start:
  "step (TouchStartOn 1 (single_touch 100))
     (disableBodyScroll (Elem 1) None (module_load (page iPhone 1015)))
   = (disableBodyScroll (Elem 1) None (module_load (page iPhone 1015)))\<lparr>initialClientY := 100\<rparr>"
  by (simp add: disableBodyScroll_def Let_def ontouchstart_callback_def single_touch_def)

section \<open>The two timer callbacks, field by field\<close>

lemma hidden_closed_form:
  "setOverflowHidden_callback options s =
     s\<lparr>previousBodyPaddingRight :=
          (if reserves_gap options s then Some (body_paddingRight s) else previousBodyPaddingRight s),
       body_paddingRight :=
          (if reserves_gap options s
           then string_of_int (innerWidth s - documentElement_clientWidth s) @ ''px''
           else body_paddingRight s),
       previousBodyOverflowSetting :=
          (if previousBodyOverflowSetting s = None then Some (body_overflow s)
           else previousBodyOverflowSetting s),
       previousDocumentElementOverflowSetting :=
          (if previousBodyOverflowSetting s = None then Some (documentElement_overflow s)
           else previousDocumentElementOverflowSetting s),
       body_overflow :=
          (if previousBodyOverflowSetting s = None then ''hidden'' else body_overflow s),
       documentElement_overflow :=
          (if previousBodyOverflowSetting s = None then ''hidden''
           else documentElement_overflow s)\<rparr>"
proof (cases "reserves_gap options s")
  case True
  then have r: "(case options of None \<Rightarrow> False | Some opt \<Rightarrow> reserveScrollBarGap opt = Some True)"
    "0 < innerWidth s - documentElement_clientWidth s" "previousBodyPaddingRight s = None"
    by (auto simp: reserves_gap_def)
  show ?thesis
    using True r by (cases "previousBodyOverflowSetting s") (simp_all add: setOverflowHidden_callback_def)
next
  case False
  then have r: "\<not> (previousBodyPaddingRight s = None \<and> (case options of None \<Rightarrow> False | Some opt \<Rightarrow> reserveScrollBarGap opt = Some True)
    \<and> 0 < innerWidth s - documentElement_clientWidth s)"
    by (auto simp: reserves_gap_def split: option.splits)
  show ?thesis
    using False r by (cases "previousBodyOverflowSetting s") (auto simp add: setOverflowHidden_callback_def)
qed

lemma restore_closed_form:
  "restoreOverflowSetting_callback s =
     s\<lparr>body_paddingRight :=
          (case previousBodyPaddingRight s of Some p \<Rightarrow> p | None \<Rightarrow> body_paddingRight s),
       previousBodyPaddingRight := None,
       body_overflow :=
          (case previousBodyOverflowSetting s of Some v \<Rightarrow> v | None \<Rightarrow> body_overflow s),
       documentElement_overflow :=
          (case previousBodyOverflowSetting s of
             Some v \<Rightarrow> (case previousDocumentElementOverflowSetting s of
                          Some w \<Rightarrow> w | None \<Rightarrow> documentElement_overflow s)
           | None \<Rightarrow> documentElement_overflow s),
       previousBodyOverflowSetting := None,
       previousDocumentElementOverflowSetting :=
          (if previousBodyOverflowSetting s = None then previousDocumentElementOverflowSetting s
           else None)\<rparr>"
  by (cases "previousBodyPaddingRight s"; cases "previousBodyOverflowSetting s";
      cases "previousDocumentElementOverflowSetting s")
    (simp_all add: restoreOverflowSetting_callback_def Let_def)

lemma hidden_fields [simp]:
  "navigator (setOverflowHidden_callback options s) = navigator s"
  "innerWidth (setOverflowHidden_callback options s) = innerWidth s"
  "documentElement_clientWidth (setOverflowHidden_callback options s) = documentElement_clientWidth s"
  "body_listeners (setOverflowHidden_callback options s) = body_listeners s"
  "elements (setOverflowHidden_callback options s) = elements s"
  "timers (setOverflowHidden_callback options s) = timers s"
  "isIosDevice (setOverflowHidden_callback options s) = isIosDevice s"
  "firstTargetElement (setOverflowHidden_callback options s) = firstTargetElement s"
  "allTargetElements (setOverflowHidden_callback options s) = allTargetElements s"
  "initialClientY (setOverflowHidden_callback options s) = initialClientY s"
  "handlers (setOverflowHidden_callback options s) = handlers s"
  by (simp_all add: hidden_closed_form)

lemma hidden_padding:
  "body_paddingRight (setOverflowHidden_callback options s) =
     (if reserves_gap options s
      then string_of_int (innerWidth s - documentElement_clientWidth s) @ ''px''
      else body_paddingRight s)"
  "previousBodyPaddingRight (setOverflowHidden_callback options s) =
     (if reserves_gap options s then Some (body_paddingRight s) else previousBodyPaddingRight s)"
  by (simp_all add: hidden_closed_form)

lemma hidden_overflow:
  "body_overflow (setOverflowHidden_callback options s) =
     (if previousBodyOverflowSetting s = None then ''hidden'' else body_overflow s)"
  "documentElement_overflow (setOverflowHidden_callback options s) =
     (if previousBodyOverflowSetting s = None then ''hidden'' else documentElement_overflow s)"
  "previousBodyOverflowSetting (setOverflowHidden_callback options s) =
     (if previousBodyOverflowSetting s = None then Some (body_overflow s)
      else previousBodyOverflowSetting s)"
  "previousDocumentElementOverflowSetting (setOverflowHidden_callback options s) =
     (if previousBodyOverflowSetting s = None then Some (documentElement_overflow s)
      else previousDocumentElementOverflowSetting s)"
  by (simp_all add: hidden_closed_form)

lemma restore_fields [simp]:
  "navigator (restoreOverflowSetting_callback s) = navigator s"
  "innerWidth (restoreOverflowSetting_callback s) = innerWidth s"
  "documentElement_clientWidth (restoreOverflowSetting_callback s) = documentElement_clientWidth s"
  "body_listeners (restoreOverflowSetting_callback s) = body_listeners s"
  "elements (restoreOverflowSetting_callback s) = elements s"
  "timers (restoreOverflowSetting_callback s) = timers s"
  "isIosDevice (restoreOverflowSetting_callback s) = isIosDevice s"
  "firstTargetElement (restoreOverflowSetting_callback s) = firstTargetElement s"
  "allTargetElements (restoreOverflowSetting_callback s) = allTargetElements s"
  "initialClientY (restoreOverflowSetting_callback s) = initialClientY s"
  "handlers (restoreOverflowSetting_callback s) = handlers s"
  by (simp_all add: restore_closed_form)

lemma restore_padding:
  "body_paddingRight (restoreOverflowSetting_callback s) =
     (case previousBodyPaddingRight s of Some p \<Rightarrow> p | None \<Rightarrow> body_paddingRight s)"
  "previousBodyPaddingRight (restoreOverflowSetting_callback s) = None"
  by (simp_all add: restore_closed_form)

lemma restore_overflow:
  "body_overflow (restoreOverflowSetting_callback s) =
     (case previousBodyOverflowSetting s of Some v \<Rightarrow> v | None \<Rightarrow> body_overflow s)"
  "documentElement_overflow (restoreOverflowSetting_callback s) =
     (case previousBodyOverflowSetting s of
        Some v \<Rightarrow> (case previousDocumentElementOverflowSetting s of
                     Some w \<Rightarrow> w | None \<Rightarrow> documentElement_overflow s)
      | None \<Rightarrow> documentElement_overflow s)"
  "previousBodyOverflowSetting (restoreOverflowSetting_callback s) = None"
  "previousDocumentElementOverflowSetting (restoreOverflowSetting_callback s) =
     (if previousBodyOverflowSetting s = None then previousDocumentElementOverflowSetting s
      else None)"
  by (simp_all add: restore_closed_form)

lemma restore_nothing_held:
  "previousBodyPaddingRight s = None \<Longrightarrow> previousBodyOverflowSetting s = None \<Longrightarrow>
   restoreOverflowSetting_callback s = s"
  by (simp add: restoreOverflowSetting_callback_def)

lemma hidden_idem:
  "setOverflowHidden_callback options (setOverflowHidden_callback options s)
   = setOverflowHidden_callback options s"
  by (cases "previousBodyPaddingRight s"; cases "previousBodyOverflowSetting s"; cases options)
    (simp_all add: setOverflowHidden_callback_def Let_def)

lemma reserves_gap_upd [simp]:
  "reserves_gap options (s\<lparr>firstTargetElement := x\<rparr>) = reserves_gap options s"
  "reserves_gap options (s\<lparr>timers := ts\<rparr>) = reserves_gap options s"
  by (simp_all add: reserves_gap_def)

lemma hide_first:
  "setOverflowHidden_callback options (s\<lparr>firstTargetElement := x\<rparr>)
   = (setOverflowHidden_callback options s)\<lparr>firstTargetElement := x\<rparr>"
  by (cases "reserves_gap options s"; cases "previousBodyOverflowSetting s")
    (simp_all add: hidden_closed_form)

lemma hide_timers:
  "setOverflowHidden_callback options (s\<lparr>timers := x\<rparr>)
   = (setOverflowHidden_callback options s)\<lparr>timers := x\<rparr>"
  by (cases "reserves_gap options s"; cases "previousBodyOverflowSetting s")
    (simp_all add: hidden_closed_form)

lemma restore_first:
  "restoreOverflowSetting_callback (s\<lparr>firstTargetElement := x\<rparr>)
   = (restoreOverflowSetting_callback s)\<lparr>firstTargetElement := x\<rparr>"
  by (cases "previousBodyPaddingRight s"; cases "previousBodyOverflowSetting s";
      cases "previousDocumentElementOverflowSetting s")
    (simp_all add: restore_closed_form)

lemma restore_timers:
  "restoreOverflowSetting_callback (s\<lparr>timers := x\<rparr>)
   = (restoreOverflowSetting_callback s)\<lparr>timers := x\<rparr>"
  by (cases "previousBodyPaddingRight s"; cases "previousBodyOverflowSetting s";
      cases "previousDocumentElementOverflowSetting s")
    (simp_all add: restore_closed_form)

lemma run_timer_first:
  "run_timer t (s\<lparr>firstTargetElement := x\<rparr>) = (run_timer t s)\<lparr>firstTargetElement := x\<rparr>"
  by (cases t) (simp_all add: hide_first restore_first)

lemma run_timer_timers:
  "run_timer t (s\<lparr>timers := x\<rparr>) = (run_timer t s)\<lparr>timers := x\<rparr>"
  by (cases t) (simp_all add: hide_timers restore_timers)

lemma fold_run_timer_first:
  "fold run_timer ts (s\<lparr>firstTargetElement := x\<rparr>) = (fold run_timer ts s)\<lparr>firstTargetElement := x\<rparr>"
  by (induction ts arbitrary: s) (simp_all add: run_timer_first)

lemma fold_run_timer_timers:
  "fold run_timer ts (s\<lparr>timers := x\<rparr>) = (fold run_timer ts s)\<lparr>timers := x\<rparr>"
  by (induction ts arbitrary: s) (simp_all add: run_timer_timers)

lemma runAllTimers_alt: "runAllTimers s = (fold run_timer (timers s) s)\<lparr>timers := []\<rparr>"
  by (simp add: runAllTimers_def fold_run_timer_timers)

section \<open>The operations on the standard platform\<close>

lemma std_lock:
  "\<not> isIosDevice s \<Longrightarrow>
   disableBodyScroll t options s =
     s\<lparr>timers := timers s @ [SetOverflowHiddenTimer options],
       firstTargetElement := (if truthy (firstTargetElement s) then firstTargetElement s else t)\<rparr>"
  by (simp add: disableBodyScroll_def setOverflowHidden_def setTimeout_def Let_def)

lemma std_unlock:
  "\<not> isIosDevice s \<Longrightarrow>
   enableBodyScroll t s =
     (if firstTargetElement s = t
      then Inr (s\<lparr>timers := timers s @ [RestoreOverflowSettingTimer], firstTargetElement := Null\<rparr>)
      else Inr s)"
  by (simp add: enableBodyScroll_def restoreOverflowSetting_def setTimeout_def)

lemma std_clear:
  "\<not> isIosDevice s \<Longrightarrow>
   clearAllBodyScrollLocks s =
     Inr (s\<lparr>timers := timers s @ [RestoreOverflowSettingTimer], firstTargetElement := Null\<rparr>)"
  by (simp add: clearAllBodyScrollLocks_def restoreOverflowSetting_def setTimeout_def andThen_def)

lemma runAllTimers_upd:
  "runAllTimers (s\<lparr>timers := ts, firstTargetElement := x\<rparr>)
   = (fold run_timer ts s)\<lparr>timers := [], firstTargetElement := x\<rparr>"
  by (simp add: runAllTimers_alt fold_run_timer_first fold_run_timer_timers)

lemma state_of_Inr [simp]: "state_of (Inr s) = s"
  by (simp add: state_of_def)

lemma state_of_Inl [simp]: "state_of (Inl (e, s)) = s"
  by (simp add: state_of_def)

lemma raises_simps [simp]: "raises (Inr s) = False" "raises (Inl e) = True"
  by (simp_all add: raises_def)

lemma reserves_gap_hidden:
  "reserves_gap o2 (setOverflowHidden_callback o1 s) = (reserves_gap o2 s \<and> \<not> reserves_gap o1 s)"
  by (auto simp add: reserves_gap_def hidden_padding)

lemma std_lock_settled:
  "\<not> isIosDevice s \<Longrightarrow> timers s = [] \<Longrightarrow>
   runAllTimers (disableBodyScroll t options s) =
     (setOverflowHidden_callback options s)
       \<lparr>timers := [],
        firstTargetElement := (if truthy (firstTargetElement s) then firstTargetElement s else t)\<rparr>"
  by (subst std_lock, assumption, subst runAllTimers_upd) simp

lemma std_unlock_settled:
  assumes "\<not> isIosDevice s" and "timers s = []" and "firstTargetElement s = t"
  shows "runAllTimers (state_of (enableBodyScroll t s)) =
     (restoreOverflowSetting_callback s)\<lparr>timers := [], firstTargetElement := Null\<rparr>"
proof -
  have "state_of (enableBodyScroll t s)
      = s\<lparr>timers := timers s @ [RestoreOverflowSettingTimer], firstTargetElement := Null\<rparr>"
    using assms(3) by (simp add: std_unlock [OF assms(1)])
  then show ?thesis
    by (simp only: runAllTimers_upd) (simp add: assms(2))
qed

section \<open>When the queued callbacks run does not matter\<close>

lemma run_timer_registry_fields [simp]:
  "allTargetElements (run_timer t s) = allTargetElements s"
  "handlers (run_timer t s) = handlers s"
  "initialClientY (run_timer t s) = initialClientY s"
  "elements (run_timer t s) = elements s"
  "body_listeners (run_timer t s) = body_listeners s"
  "isIosDevice (run_timer t s) = isIosDevice s"
  "firstTargetElement (run_timer t s) = firstTargetElement s"
  "timers (run_timer t s) = timers s"
  by (cases t; simp)+

lemma fold_run_timer_fields [simp]:
  "firstTargetElement (fold run_timer ts s) = firstTargetElement s"
  "isIosDevice (fold run_timer ts s) = isIosDevice s"
  "timers (fold run_timer ts s) = timers s"
  by (induction ts arbitrary: s; simp)+

text \<open>
  On the standard platform the operations only queue callbacks and write
  \<open>firstTargetElement\<close>, which no callback reads.  So the callbacks that were waiting may
  run before the operation or after it (they run before the one it queues, in either
  case): the state after all of them is the same.
\<close>

lemma std_lock_timers_commute:
  assumes "\<not> isIosDevice s"
  shows "runAllTimers (disableBodyScroll t options (runAllTimers s))
         = runAllTimers (disableBodyScroll t options s)"
proof -
  define x where "x = fold run_timer (timers s) s"
  define f where "f = (if truthy (firstTargetElement s) then firstTargetElement s else t)"
  have x: "runAllTimers s = x\<lparr>timers := []\<rparr>"
    by (simp add: runAllTimers_alt x_def)
  have std: "\<not> isIosDevice (x\<lparr>timers := []\<rparr>)"
    using assms by (simp add: x_def)
  have fx: "firstTargetElement x = firstTargetElement s"
    by (simp add: x_def)
  have l: "disableBodyScroll t options (x\<lparr>timers := []\<rparr>)
      = x\<lparr>timers := [SetOverflowHiddenTimer options], firstTargetElement := f\<rparr>"
    by (simp add: std_lock [OF std] fx f_def)
  have r: "disableBodyScroll t options s
      = s\<lparr>timers := timers s @ [SetOverflowHiddenTimer options], firstTargetElement := f\<rparr>"
    by (simp add: std_lock [OF assms] f_def)
  show ?thesis
    unfolding x l r runAllTimers_upd by (simp add: x_def)
qed

lemma std_unlock_timers_commute:
  assumes "\<not> isIosDevice s"
  shows "runAllTimers (state_of (enableBodyScroll t (runAllTimers s)))
         = runAllTimers (state_of (enableBodyScroll t s))"
proof -
  define x where "x = fold run_timer (timers s) s"
  have x: "runAllTimers s = x\<lparr>timers := []\<rparr>"
    by (simp add: runAllTimers_alt x_def)
  have std: "\<not> isIosDevice (x\<lparr>timers := []\<rparr>)"
    using assms by (simp add: x_def)
  have fx: "firstTargetElement x = firstTargetElement s"
    by (simp add: x_def)
  show ?thesis
  proof (cases "firstTargetElement s = t")
    case True
    have l: "state_of (enableBodyScroll t (x\<lparr>timers := []\<rparr>))
        = x\<lparr>timers := [RestoreOverflowSettingTimer], firstTargetElement := Null\<rparr>"
      using True by (simp add: std_unlock [OF std] fx)
    have r: "state_of (enableBodyScroll t s)
        = s\<lparr>timers := timers s @ [RestoreOverflowSettingTimer], firstTargetElement := Null\<rparr>"
      using True by (simp add: std_unlock [OF assms])
    show ?thesis
      unfolding x l r runAllTimers_upd by (simp add: x_def)
  next
    case False
    have l: "state_of (enableBodyScroll t (x\<lparr>timers := []\<rparr>)) = x\<lparr>timers := []\<rparr>"
      using False by (simp add: std_unlock [OF std] fx)
    have r: "state_of (enableBodyScroll t s) = s"
      using False by (simp add: std_unlock [OF assms])
    show ?thesis
      unfolding x l r by (simp add: runAllTimers_alt x_def)
  qed
qed

lemma std_clear_timers_commute:
  assumes "\<not> isIosDevice s"
  shows "runAllTimers (state_of (clearAllBodyScrollLocks (runAllTimers s)))
         = runAllTimers (state_of (clearAllBodyScrollLocks s))"
proof -
  define x where "x = fold run_timer (timers s) s"
  have x: "runAllTimers s = x\<lparr>timers := []\<rparr>"
    by (simp add: runAllTimers_alt x_def)
  have std: "\<not> isIosDevice (x\<lparr>timers := []\<rparr>)"
    using assms by (simp add: x_def)
  have l: "state_of (clearAllBodyScrollLocks (x\<lparr>timers := []\<rparr>))
      = x\<lparr>timers := [RestoreOverflowSettingTimer], firstTargetElement := Null\<rparr>"
    by (simp add: std_clear [OF std])
  have r: "state_of (clearAllBodyScrollLocks s)
      = s\<lparr>timers := timers s @ [RestoreOverflowSettingTimer], firstTargetElement := Null\<rparr>"
    by (simp add: std_clear [OF assms])
  show ?thesis
    unfolding x l r runAllTimers_upd by (simp add: x_def)
qed

section \<open>Unlocking on the standard platform\<close>

lemma std_scenario_locked:
  assumes std: "\<not> isIosDevice s" and q: "timers s = []" and f: "\<not> truthy (firstTargetElement s)"
    and ab: "a \<noteq> b"
  shows "run [Lock (Elem a) oa, Lock (Elem b) ob, Unlock (Elem b)] s
         = s\<lparr>timers := [SetOverflowHiddenTimer oa, SetOverflowHiddenTimer ob],
             firstTargetElement := Elem a\<rparr>"
proof -
  let ?s1 = "s\<lparr>timers := [SetOverflowHiddenTimer oa], firstTargetElement := Elem a\<rparr>"
  let ?s2 = "s\<lparr>timers := [SetOverflowHiddenTimer oa, SetOverflowHiddenTimer ob],
               firstTargetElement := Elem a\<rparr>"
  have 1: "disableBodyScroll (Elem a) oa s = ?s1"
    using q f by (simp add: std_lock [OF std])
  have "\<not> isIosDevice ?s1" using std by simp
  from std_lock [OF this] have 2: "disableBodyScroll (Elem b) ob ?s1 = ?s2"
    by simp
  have "\<not> isIosDevice ?s2" using std by simp
  from std_unlock [OF this] have 3: "enableBodyScroll (Elem b) ?s2 = Inr ?s2"
    using ab by simp
  show ?thesis
    by (simp add: 1 2 3)
qed

lemma std_scenario_locked_settled:
  assumes std: "\<not> isIosDevice s" and q: "timers s = []" and f: "\<not> truthy (firstTargetElement s)"
    and ab: "a \<noteq> b"
  shows "runAllTimers (run [Lock (Elem a) oa, Lock (Elem b) ob, Unlock (Elem b)] s)
         = (setOverflowHidden_callback ob (setOverflowHidden_callback oa s))
             \<lparr>timers := [], firstTargetElement := Elem a\<rparr>"
  by (simp only: std_scenario_locked [OF assms] runAllTimers_upd) simp

text \<open>
  Claim C1.  On the standard platform \<^verbatim>\<open>enableBodyScroll\<close> queues the restoring callback and
  clears \<open>firstTargetElement\<close> exactly when its argument is identical to
  \<open>firstTargetElement\<close>; for every other argument it returns the state as it was.  Once the
  queued callback has run, the overflow of both root containers and the trailing padding
  hold the captured values again.  In particular, starting with nothing locked, after
  lock(A), lock(B), unlock(B) with two different elements both overflow styles are
  \<open>hidden\<close>, and after unlock(A) they and the padding are what they were before the
  first lock.
\<close>

theorem standard_unlock_first_target_only:
  assumes "\<not> isIosDevice s"
  shows "(t = firstTargetElement s \<longrightarrow>
            enableBodyScroll t s =
              Inr (s\<lparr>timers := timers s @ [RestoreOverflowSettingTimer],
                     firstTargetElement := Null\<rparr>))
       \<and> (t \<noteq> firstTargetElement s \<longrightarrow> enableBodyScroll t s = Inr s)
       \<and> (t = firstTargetElement s \<and> timers s = []
            \<and> previousBodyOverflowSetting s = Some v
            \<and> previousDocumentElementOverflowSetting s = Some w \<longrightarrow>
              body_overflow (runAllTimers (state_of (enableBodyScroll t s))) = v
            \<and> documentElement_overflow (runAllTimers (state_of (enableBodyScroll t s))) = w
            \<and> body_paddingRight (runAllTimers (state_of (enableBodyScroll t s)))
                = (case previousBodyPaddingRight s of Some p \<Rightarrow> p | None \<Rightarrow> body_paddingRight s)
            \<and> previousBodyOverflowSetting (runAllTimers (state_of (enableBodyScroll t s))) = None
            \<and> previousBodyPaddingRight (runAllTimers (state_of (enableBodyScroll t s))) = None
            \<and> firstTargetElement (runAllTimers (state_of (enableBodyScroll t s))) = Null)
       \<and> (timers s = [] \<and> \<not> truthy (firstTargetElement s)
            \<and> previousBodyOverflowSetting s = None \<and> previousBodyPaddingRight s = None
            \<and> a \<noteq> b \<longrightarrow>
              body_overflow
                (runAllTimers (run [Lock (Elem a) oa, Lock (Elem b) ob, Unlock (Elem b)] s))
                = ''hidden''
            \<and> documentElement_overflow
                (runAllTimers (run [Lock (Elem a) oa, Lock (Elem b) ob, Unlock (Elem b)] s))
                = ''hidden''
            \<and> body_overflow
                (runAllTimers (run [Unlock (Elem a)]
                   (runAllTimers (run [Lock (Elem a) oa, Lock (Elem b) ob, Unlock (Elem b)] s))))
                = body_overflow s
            \<and> documentElement_overflow
                (runAllTimers (run [Unlock (Elem a)]
                   (runAllTimers (run [Lock (Elem a) oa, Lock (Elem b) ob, Unlock (Elem b)] s))))
                = documentElement_overflow s
            \<and> body_paddingRight
                (runAllTimers (run [Unlock (Elem a)]
                   (runAllTimers (run [Lock (Elem a) oa, Lock (Elem b) ob, Unlock (Elem b)] s))))
                = body_paddingRight s)"
proof (intro conjI impI)
  show "enableBodyScroll t s =
      Inr (s\<lparr>timers := timers s @ [RestoreOverflowSettingTimer], firstTargetElement := Null\<rparr>)"
    if "t = firstTargetElement s"
    using that by (simp add: std_unlock [OF assms])
  show "enableBodyScroll t s = Inr s" if "t \<noteq> firstTargetElement s"
    using that by (auto simp add: std_unlock [OF assms])
next
  assume h: "t = firstTargetElement s \<and> timers s = []
      \<and> previousBodyOverflowSetting s = Some v
      \<and> previousDocumentElementOverflowSetting s = Some w"
  then have ht: "firstTargetElement s = t" and q: "timers s = []"
    and pv: "previousBodyOverflowSetting s = Some v"
    and pw: "previousDocumentElementOverflowSetting s = Some w"
    by simp_all
  have e: "runAllTimers (state_of (enableBodyScroll t s)) =
     (restoreOverflowSetting_callback s)\<lparr>timers := [], firstTargetElement := Null\<rparr>"
    by (rule std_unlock_settled [OF assms q ht])
  show "body_overflow (runAllTimers (state_of (enableBodyScroll t s))) = v"
    by (simp add: e restore_overflow pv)
  show "documentElement_overflow (runAllTimers (state_of (enableBodyScroll t s))) = w"
    by (simp add: e restore_overflow pv pw)
  show "body_paddingRight (runAllTimers (state_of (enableBodyScroll t s)))
      = (case previousBodyPaddingRight s of Some p \<Rightarrow> p | None \<Rightarrow> body_paddingRight s)"
    by (simp add: e restore_padding)
  show "previousBodyOverflowSetting (runAllTimers (state_of (enableBodyScroll t s))) = None"
    by (simp add: e restore_overflow)
  show "previousBodyPaddingRight (runAllTimers (state_of (enableBodyScroll t s))) = None"
    by (simp add: e restore_padding)
  show "firstTargetElement (runAllTimers (state_of (enableBodyScroll t s))) = Null"
    by (simp add: e)
next
  assume h: "timers s = [] \<and> \<not> truthy (firstTargetElement s)
      \<and> previousBodyOverflowSetting s = None \<and> previousBodyPaddingRight s = None \<and> a \<noteq> b"
  define s3 where "s3 = runAllTimers (run [Lock (Elem a) oa, Lock (Elem b) ob, Unlock (Elem b)] s)"
  define s4 where "s4 = runAllTimers (state_of (enableBodyScroll (Elem a) s3))"
  have run4: "runAllTimers (run [Unlock (Elem a)] s3) = s4"
    by (simp add: s4_def)
  let ?h = "setOverflowHidden_callback ob (setOverflowHidden_callback oa s)"
  have s3: "s3 = ?h\<lparr>timers := [], firstTargetElement := Elem a\<rparr>"
    unfolding s3_def using std_scenario_locked_settled [OF assms, of a b oa ob] h by simp
  have std3: "\<not> isIosDevice s3" "timers s3 = []" "firstTargetElement s3 = Elem a"
    using assms by (simp_all add: s3)
  have s4: "s4 = (restoreOverflowSetting_callback s3)\<lparr>timers := [], firstTargetElement := Null\<rparr>"
    unfolding s4_def by (rule std_unlock_settled [OF std3])
  have ov: "previousBodyOverflowSetting s3 = Some (body_overflow s)"
    "previousDocumentElementOverflowSetting s3 = Some (documentElement_overflow s)"
    using h by (simp_all add: s3 hidden_overflow)
  have pad: "(case previousBodyPaddingRight s3 of Some p \<Rightarrow> p | None \<Rightarrow> body_paddingRight s3)
      = body_paddingRight s"
    using h by (simp add: s3 hidden_padding reserves_gap_hidden)
  have "body_overflow s3 = ''hidden''"
    using h by (simp add: s3 hidden_overflow)
  then show "body_overflow
      (runAllTimers (run [Lock (Elem a) oa, Lock (Elem b) ob, Unlock (Elem b)] s)) = ''hidden''"
    by (simp only: s3_def)
  have "documentElement_overflow s3 = ''hidden''"
    using h by (simp add: s3 hidden_overflow)
  then show "documentElement_overflow
      (runAllTimers (run [Lock (Elem a) oa, Lock (Elem b) ob, Unlock (Elem b)] s)) = ''hidden''"
    by (simp only: s3_def)
  have "body_overflow s4 = body_overflow s"
    by (simp add: s4 restore_overflow ov)
  then show "body_overflow
      (runAllTimers (run [Unlock (Elem a)]
         (runAllTimers (run [Lock (Elem a) oa, Lock (Elem b) ob, Unlock (Elem b)] s))))
      = body_overflow s"
    by (simp only: s3_def [symmetric] run4)
  have "documentElement_overflow s4 = documentElement_overflow s"
    by (simp add: s4 restore_overflow ov)
  then show "documentElement_overflow
      (runAllTimers (run [Unlock (Elem a)]
         (runAllTimers (run [Lock (Elem a) oa, Lock (Elem b) ob, Unlock (Elem b)] s))))
      = documentElement_overflow s"
    by (simp only: s3_def [symmetric] run4)
  have "body_paddingRight s4 = body_paddingRight s"
    by (simp add: s4 restore_padding pad)
  then show "body_paddingRight
      (runAllTimers (run [Unlock (Elem a)]
         (runAllTimers (run [Lock (Elem a) oa, Lock (Elem b) ob, Unlock (Elem b)] s))))
      = body_paddingRight s"
    by (simp only: s3_def [symmetric] run4)
qed
lemma desktop_locked_once:
  "runAllTimers (disableBodyScroll (Elem 1) gap_option (module_load (page desktop 1015)))
   = (setOverflowHidden_callback gap_option (module_load (page desktop 1015)))
       \<lparr>timers := [], firstTargetElement := Elem 1\<rparr>"
  by (subst std_lock_settled) simp_all

theorem standard_unlock_first_target_only_witness:
  "enableBodyScroll (Elem 5) (module_load (page desktop 1015))
     = Inr (module_load (page desktop 1015))
   \<and> body_overflow
       (runAllTimers (run [Lock (Elem 1) gap_option, Lock (Elem 2) None, Unlock (Elem 2)]
          (module_load (page desktop 1015)))) = ''hidden''
   \<and> body_overflow
       (runAllTimers (run [Unlock (Elem 1)]
          (runAllTimers (run [Lock (Elem 1) gap_option, Lock (Elem 2) None, Unlock (Elem 2)]
             (module_load (page desktop 1015)))))) = ''auto''
   \<and> documentElement_overflow
       (runAllTimers (run [Unlock (Elem 1)]
          (runAllTimers (run [Lock (Elem 1) gap_option, Lock (Elem 2) None, Unlock (Elem 2)]
             (module_load (page desktop 1015)))))) = ''scroll''
   \<and> body_overflow
       (runAllTimers (state_of (enableBodyScroll (Elem 1)
          (runAllTimers (disableBodyScroll (Elem 1) gap_option
             (module_load (page desktop 1015))))))) = ''auto''"
proof -
  let ?s = "module_load (page desktop 1015)"
  let ?s1 = "runAllTimers (disableBodyScroll (Elem 1) gap_option ?s)"
  have std: "\<not> isIosDevice ?s" by simp
  have fresh: "timers ?s = [] \<and> \<not> truthy (firstTargetElement ?s)
      \<and> previousBodyOverflowSetting ?s = None \<and> previousBodyPaddingRight ?s = None
      \<and> (1::nat) \<noteq> 2"
    by simp
  have other: "Elem 5 \<noteq> firstTargetElement ?s" by simp
  have std1: "\<not> isIosDevice ?s1"
    by (simp only: desktop_locked_once) simp
  have held: "Elem 1 = firstTargetElement ?s1 \<and> timers ?s1 = []
      \<and> previousBodyOverflowSetting ?s1 = Some ''auto''
      \<and> previousDocumentElementOverflowSetting ?s1 = Some ''scroll''"
    by (simp only: desktop_locked_once) (simp add: hidden_overflow)
  note A = standard_unlock_first_target_only [OF std, of "Elem 5" _ _ 1 2 gap_option None]
  note B = standard_unlock_first_target_only [OF std1, of "Elem 1" "''auto''" "''scroll''"]
  have v: "body_overflow ?s = ''auto''" "documentElement_overflow ?s = ''scroll''"
    by simp_all
  from A other have c1: "enableBodyScroll (Elem 5) ?s = Inr ?s"
    by blast
  from A fresh have c2: "body_overflow
       (runAllTimers (run [Lock (Elem 1) gap_option, Lock (Elem 2) None, Unlock (Elem 2)] ?s))
       = ''hidden''"
    by blast
  from A fresh have c3: "body_overflow
       (runAllTimers (run [Unlock (Elem 1)]
          (runAllTimers (run [Lock (Elem 1) gap_option, Lock (Elem 2) None, Unlock (Elem 2)] ?s))))
       = body_overflow ?s"
    by blast
  from A fresh have c4: "documentElement_overflow
       (runAllTimers (run [Unlock (Elem 1)]
          (runAllTimers (run [Lock (Elem 1) gap_option, Lock (Elem 2) None, Unlock (Elem 2)] ?s))))
       = documentElement_overflow ?s"
    by blast
  from B held have c5: "body_overflow
       (runAllTimers (state_of (enableBodyScroll (Elem 1) ?s1))) = ''auto''"
    by blast
  show ?thesis
    using c1 c2 c3 c4 c5 by (simp only: v)
qed

section \<open>Locking twice\<close>

lemma touch_lock_fields:
  assumes "isIosDevice s"
  shows "isIosDevice (disableBodyScroll t options s)"
    and "truthy t \<Longrightarrow> t \<in> set (allTargetElements (disableBodyScroll t options s))"
    and "truthy t \<Longrightarrow> truthy (firstTargetElement (disableBodyScroll t options s))"
    and "\<not> truthy t \<Longrightarrow> truthy (firstTargetElement (disableBodyScroll t options s))
           \<or> firstTargetElement (disableBodyScroll t options s) = t"
  using assms by (cases t; simp add: disableBodyScroll_def Let_def)+

lemma touch_lock_noop:
  assumes "isIosDevice s"
    and "truthy t \<Longrightarrow> t \<in> set (allTargetElements s) \<and> truthy (firstTargetElement s)"
    and "\<not> truthy t \<Longrightarrow> truthy (firstTargetElement s) \<or> firstTargetElement s = t"
  shows "disableBodyScroll t options s = s"
  using assms by (cases t) (auto simp add: disableBodyScroll_def Let_def)

lemma touch_lock_distinct:
  "distinct (allTargetElements s) \<Longrightarrow> distinct (allTargetElements (disableBodyScroll t options s))"
  by (cases t) (simp_all add: disableBodyScroll_def Let_def setOverflowHidden_def setTimeout_def)

lemma std_lock_twice:
  assumes "\<not> isIosDevice s"
  shows "disableBodyScroll t options (disableBodyScroll t options s)
         = (disableBodyScroll t options s)
             \<lparr>timers := timers (disableBodyScroll t options s) @ [SetOverflowHiddenTimer options]\<rparr>"
proof -
  let ?d = "disableBodyScroll t options s"
  have d: "?d = s\<lparr>timers := timers s @ [SetOverflowHiddenTimer options],
       firstTargetElement := (if truthy (firstTargetElement s) then firstTargetElement s else t)\<rparr>"
    by (rule std_lock [OF assms])
  have "\<not> isIosDevice ?d"
    using assms by (simp add: d)
  from std_lock [OF this, of t options] show ?thesis
    by (simp add: d)
qed

lemma std_lock_twice_settled:
  assumes "\<not> isIosDevice s"
  shows "runAllTimers (disableBodyScroll t options (disableBodyScroll t options s))
         = runAllTimers (disableBodyScroll t options s)"
proof -
  let ?f = "if truthy (firstTargetElement s) then firstTargetElement s else t"
  let ?H = "SetOverflowHiddenTimer options"
  have d: "disableBodyScroll t options s = s\<lparr>timers := timers s @ [?H], firstTargetElement := ?f\<rparr>"
    by (rule std_lock [OF assms])
  have dd: "disableBodyScroll t options (disableBodyScroll t options s)
      = s\<lparr>timers := timers s @ [?H, ?H], firstTargetElement := ?f\<rparr>"
    by (subst std_lock_twice [OF assms]) (simp add: d)
  have l: "runAllTimers (disableBodyScroll t options (disableBodyScroll t options s))
      = runAllTimers (s\<lparr>timers := timers s @ [?H, ?H], firstTargetElement := ?f\<rparr>)"
    by (simp only: dd)
  have r: "runAllTimers (disableBodyScroll t options s)
      = runAllTimers (s\<lparr>timers := timers s @ [?H], firstTargetElement := ?f\<rparr>)"
    by (simp only: d)
  show ?thesis
    unfolding l r runAllTimers_upd by (simp add: hidden_idem)
qed

text \<open>
  Claim C5.  A second lock call with the same target and options, right after the first,
  leaves the registry as the first call left it.  On the touch platform the state after two
  calls is the state after one.  On the standard platform, where the work is deferred, the
  second call only queues the callback once more, and when the queued callbacks have run
  the two states are equal.  In both cases the second call adds no target, no handler and no
  listener, and a registry without duplicates stays without duplicates.
\<close>

theorem lock_twice_same_as_once:
  "(isIosDevice s \<longrightarrow>
      disableBodyScroll t options (disableBodyScroll t options s) = disableBodyScroll t options s)
   \<and> (\<not> isIosDevice s \<longrightarrow>
        disableBodyScroll t options (disableBodyScroll t options s)
          = (disableBodyScroll t options s)
              \<lparr>timers := timers (disableBodyScroll t options s) @ [SetOverflowHiddenTimer options]\<rparr>
        \<and> runAllTimers (disableBodyScroll t options (disableBodyScroll t options s))
          = runAllTimers (disableBodyScroll t options s))
   \<and> allTargetElements (disableBodyScroll t options (disableBodyScroll t options s))
       = allTargetElements (disableBodyScroll t options s)
   \<and> length (allTargetElements (disableBodyScroll t options (disableBodyScroll t options s)))
       = length (allTargetElements (disableBodyScroll t options s))
   \<and> handlers (disableBodyScroll t options (disableBodyScroll t options s))
       = handlers (disableBodyScroll t options s)
   \<and> body_listeners (disableBodyScroll t options (disableBodyScroll t options s))
       = body_listeners (disableBodyScroll t options s)
   \<and> firstTargetElement (disableBodyScroll t options (disableBodyScroll t options s))
       = firstTargetElement (disableBodyScroll t options s)
   \<and> (distinct (allTargetElements s) \<longrightarrow>
        distinct (allTargetElements (disableBodyScroll t options s)))"
proof -
  let ?d = "disableBodyScroll t options s"
  let ?dd = "disableBodyScroll t options ?d"
  have touch: "?dd = ?d" if "isIosDevice s"
    using touch_lock_fields [OF that, of t options]
    by (intro touch_lock_noop) auto
  have std: "?dd = ?d\<lparr>timers := timers ?d @ [SetOverflowHiddenTimer options]\<rparr>"
    if "\<not> isIosDevice s"
    by (rule std_lock_twice [OF that])
  have same: "allTargetElements ?dd = allTargetElements ?d \<and> handlers ?dd = handlers ?d
      \<and> body_listeners ?dd = body_listeners ?d \<and> firstTargetElement ?dd = firstTargetElement ?d"
  proof (cases "isIosDevice s")
    case True
    then show ?thesis by (simp only: touch)
  next
    case False
    then show ?thesis by (subst (1 2 3 4) std) simp_all
  qed
  show ?thesis
    using touch std std_lock_twice_settled [of s t options] same touch_lock_distinct [of s t options]
    by metis
qed
theorem lock_twice_same_as_once_witness:
  "disableBodyScroll (Elem 1) None
     (disableBodyScroll (Elem 1) None (module_load (page iPhone 1015)))
     = disableBodyScroll (Elem 1) None (module_load (page iPhone 1015))
   \<and> length (allTargetElements
        (disableBodyScroll (Elem 1) None
           (disableBodyScroll (Elem 1) None (module_load (page iPhone 1015))))) = 1
   \<and> runAllTimers (disableBodyScroll (Elem 1) gap_option
        (disableBodyScroll (Elem 1) gap_option (module_load (page desktop 1015))))
     = runAllTimers (disableBodyScroll (Elem 1) gap_option (module_load (page desktop 1015)))
   \<and> distinct (allTargetElements (disableBodyScroll (Elem 1) None (module_load (page iPhone 1015))))"
proof -
  let ?t = "module_load (page iPhone 1015)"
  let ?s = "module_load (page desktop 1015)"
  have touch: "isIosDevice ?t" and std: "\<not> isIosDevice ?s"
    and dist: "distinct (allTargetElements ?t)"
    by simp_all
  have one: "length (allTargetElements (disableBodyScroll (Elem 1) None ?t)) = 1"
    by (simp add: disableBodyScroll_def Let_def)
  note A = lock_twice_same_as_once [of ?t "Elem 1" None]
  note B = lock_twice_same_as_once [of ?s "Elem 1" gap_option]
  from A touch have c1: "disableBodyScroll (Elem 1) None (disableBodyScroll (Elem 1) None ?t)
      = disableBodyScroll (Elem 1) None ?t"
    by blast
  from A have "length (allTargetElements
        (disableBodyScroll (Elem 1) None (disableBodyScroll (Elem 1) None ?t)))
      = length (allTargetElements (disableBodyScroll (Elem 1) None ?t))"
    by blast
  then have c2: "length (allTargetElements
        (disableBodyScroll (Elem 1) None (disableBodyScroll (Elem 1) None ?t))) = 1"
    by (simp only: one)
  from B std have c3: "runAllTimers (disableBodyScroll (Elem 1) gap_option
        (disableBodyScroll (Elem 1) gap_option ?s))
      = runAllTimers (disableBodyScroll (Elem 1) gap_option ?s)"
    by blast
  from A dist have c4: "distinct (allTargetElements (disableBodyScroll (Elem 1) None ?t))"
    by blast
  show ?thesis
    using c1 c2 c3 c4 by blast
qed

section \<open>The platform strings that select the touch path\<close>

lemma startsWith_append: "startsWith (p @ q) s \<Longrightarrow> startsWith p s"
  by (induction p s rule: startsWith.induct) auto

lemma str_includes_append: "str_includes (p @ q) s \<Longrightarrow> str_includes p s"
  by (induction s) (auto dest: startsWith_append)

lemma str_includes_nonempty: "str_includes (c # p) s \<Longrightarrow> s \<noteq> []"
  by (cases s) auto

lemma simulators_subsumed:
  "str_includes ''iPad Simulator'' p \<Longrightarrow> str_includes ''iPad'' p"
  "str_includes ''iPhone Simulator'' p \<Longrightarrow> str_includes ''iPhone'' p"
  "str_includes ''iPod Simulator'' p \<Longrightarrow> str_includes ''iPod'' p"
  using str_includes_append [of "''iPad''" "'' Simulator''" p]
    str_includes_append [of "''iPhone''" "'' Simulator''" p]
    str_includes_append [of "''iPod''" "'' Simulator''" p]
  by simp_all

lemma detect_platform_string:
  "detect_isIosDevice (Navigator (Some p)) \<longleftrightarrow>
     str_includes ''iPad'' p \<or> str_includes ''iPhone'' p \<or> str_includes ''iPod'' p"
  using simulators_subsumed [of p] str_includes_nonempty [of _ _ p]
  by (auto simp add: platform_regex_test_def)

section \<open>The operations never read the platform\<close>

lemma nav_listeners:
  "addEventListener ty cb (s\<lparr>navigator := h\<rparr>) = (addEventListener ty cb s)\<lparr>navigator := h\<rparr>"
  "removeEventListener ty cb (s\<lparr>navigator := h\<rparr>) = (removeEventListener ty cb s)\<lparr>navigator := h\<rparr>"
  by (simp_all add: addEventListener_def removeEventListener_def)

lemma nav_hide:
  "setOverflowHidden_callback options (s\<lparr>navigator := h\<rparr>)
   = (setOverflowHidden_callback options s)\<lparr>navigator := h\<rparr>"
proof -
  have "reserves_gap options (s\<lparr>navigator := h\<rparr>) = reserves_gap options s"
    by (simp add: reserves_gap_def)
  then show ?thesis
    by (cases "reserves_gap options s"; cases "previousBodyOverflowSetting s")
      (simp_all add: hidden_closed_form)
qed

lemma nav_restore:
  "restoreOverflowSetting_callback (s\<lparr>navigator := h\<rparr>)
   = (restoreOverflowSetting_callback s)\<lparr>navigator := h\<rparr>"
  by (cases "previousBodyPaddingRight s"; cases "previousBodyOverflowSetting s";
      cases "previousDocumentElementOverflowSetting s")
    (simp_all add: restore_closed_form)

lemma nav_run_timer:
  "run_timer t (s\<lparr>navigator := h\<rparr>) = (run_timer t s)\<lparr>navigator := h\<rparr>"
  by (cases t) (simp_all add: nav_hide nav_restore)

lemma runNextTimer_alt:
  "runNextTimer s = (case timers s of [] \<Rightarrow> s | t # ts \<Rightarrow> (run_timer t s)\<lparr>timers := ts\<rparr>)"
  by (simp add: runNextTimer_def run_timer_timers split: list.splits)

lemma nav_runNextTimer:
  "runNextTimer (s\<lparr>navigator := h\<rparr>) = (runNextTimer s)\<lparr>navigator := h\<rparr>"
  by (cases "timers s") (simp_all add: runNextTimer_alt nav_run_timer)

lemma nav_set_callbacks:
  "set_ontouchstart t c (s\<lparr>navigator := h\<rparr>)
   = outcome_map (set_navigator h) (set_ontouchstart t c s)"
  "set_ontouchmove t c (s\<lparr>navigator := h\<rparr>)
   = outcome_map (set_navigator h) (set_ontouchmove t c s)"
  by (cases t; simp add: outcome_map_def set_navigator_def)+

lemma nav_andThen:
  assumes "\<And>x. f (x\<lparr>navigator := h\<rparr>) = outcome_map (set_navigator h) (g x)"
  shows "andThen (outcome_map (set_navigator h) r) f = outcome_map (set_navigator h) (andThen r g)"
  using assms by (cases r) (auto simp add: andThen_def outcome_map_def set_navigator_def)

lemma nav_enable_target:
  "enable_target t x (s\<lparr>navigator := h\<rparr>) = (enable_target t x s)\<lparr>navigator := h\<rparr>"
  by (simp add: enable_target_def Let_def nav_listeners)

lemma nav_fold_enable_target:
  "fold (enable_target t) xs (s\<lparr>navigator := h\<rparr>) = (fold (enable_target t) xs s)\<lparr>navigator := h\<rparr>"
  by (induction xs arbitrary: s) (simp_all add: nav_enable_target)

lemma nav_clear_handler:
  "clear_handler l (s\<lparr>navigator := h\<rparr>) = (clear_handler l s)\<lparr>navigator := h\<rparr>"
  by (simp add: clear_handler_def nav_listeners)

lemma nav_fold_clear_handler:
  "fold clear_handler ls (s\<lparr>navigator := h\<rparr>) = (fold clear_handler ls s)\<lparr>navigator := h\<rparr>"
  by (induction ls arbitrary: s) (simp_all add: nav_clear_handler)

lemma nav_clear_target:
  "clear_target t (s\<lparr>navigator := h\<rparr>) = outcome_map (set_navigator h) (clear_target t s)"
  by (cases t) (simp_all add: clear_target_def andThen_def outcome_map_def set_navigator_def)

lemma nav_forEach_clear_target:
  "forEach clear_target ts (s\<lparr>navigator := h\<rparr>)
   = outcome_map (set_navigator h) (forEach clear_target ts s)"
proof (induction ts arbitrary: s)
  case Nil
  then show ?case by (simp add: outcome_map_def set_navigator_def)
next
  case (Cons t ts)
  have "andThen (outcome_map (set_navigator h) (clear_target t s)) (forEach clear_target ts)
      = outcome_map (set_navigator h) (andThen (clear_target t s) (forEach clear_target ts))"
    by (rule nav_andThen) (rule Cons.IH)
  then show ?case
    by (simp add: nav_clear_target)
qed

lemma map_get_set [simp]: "map_get (map_set k v m) k = Some v"
  by (induction m) auto

lemma nav_disable:
  "disableBodyScroll t options (s\<lparr>navigator := h\<rparr>)
   = (disableBodyScroll t options s)\<lparr>navigator := h\<rparr>"
proof (cases "isIosDevice s")
  case True
  then show ?thesis
    by (cases t)
      (simp_all add: disableBodyScroll_def Let_def addEventListener_def)
next
  case False
  then have "\<not> isIosDevice (s\<lparr>navigator := h\<rparr>)" by simp
  then show ?thesis
    by (simp add: std_lock False)
qed

lemma nav_enable:
  "enableBodyScroll t (s\<lparr>navigator := h\<rparr>)
   = outcome_map (set_navigator h) (enableBodyScroll t s)"
proof (cases "isIosDevice s")
  case True
  then show ?thesis
    by (cases t)
      (simp_all add: enableBodyScroll_def Let_def nav_fold_enable_target andThen_def
        outcome_map_def set_navigator_def)
next
  case False
  then have "\<not> isIosDevice (s\<lparr>navigator := h\<rparr>)" by simp
  then show ?thesis
    by (simp add: std_unlock False outcome_map_def set_navigator_def)
qed

lemma fold_clear_handler_fields [simp]:
  "allTargetElements (fold clear_handler ls s) = allTargetElements s"
  "isIosDevice (fold clear_handler ls s) = isIosDevice s"
  "handlers (fold clear_handler ls s) = handlers s"
  "firstTargetElement (fold clear_handler ls s) = firstTargetElement s"
  "initialClientY (fold clear_handler ls s) = initialClientY s"
  "elements (fold clear_handler ls s) = elements s"
  "timers (fold clear_handler ls s) = timers s"
  by (induction ls arbitrary: s; simp add: clear_handler_def)+

lemma nav_clear:
  "clearAllBodyScrollLocks (s\<lparr>navigator := h\<rparr>)
   = outcome_map (set_navigator h) (clearAllBodyScrollLocks s)"
proof (cases "isIosDevice s")
  case True
  define s1 where "s1 = fold clear_handler (map snd (handlers s)) s"
  have a: "fold clear_handler (map snd (handlers s)) (s\<lparr>navigator := h\<rparr>) = s1\<lparr>navigator := h\<rparr>"
    by (simp add: nav_fold_clear_handler s1_def)
  have sw: "s1\<lparr>navigator := h, handlers := []\<rparr> = s1\<lparr>handlers := [], navigator := h\<rparr>"
    by simp
  have all: "allTargetElements s1 = allTargetElements s"
    by (simp add: s1_def)
  have b: "forEach clear_target ts (s1\<lparr>navigator := h, handlers := []\<rparr>)
      = outcome_map (set_navigator h) (forEach clear_target ts (s1\<lparr>handlers := []\<rparr>))" for ts
    by (simp only: sw nav_forEach_clear_target)
  have l: "clearAllBodyScrollLocks (s\<lparr>navigator := h\<rparr>)
      = andThen (andThen (forEach clear_target (allTargetElements s) (s1\<lparr>navigator := h, handlers := []\<rparr>))
           (\<lambda>s3. Inr (s3\<lparr>initialClientY := - 1\<rparr>)))
          (\<lambda>s4. Inr (s4\<lparr>firstTargetElement := Null\<rparr>))"
    using True by (simp add: clearAllBodyScrollLocks_def Let_def a all)
  have r: "clearAllBodyScrollLocks s
      = andThen (andThen (forEach clear_target (allTargetElements s) (s1\<lparr>handlers := []\<rparr>))
           (\<lambda>s3. Inr (s3\<lparr>initialClientY := - 1\<rparr>)))
          (\<lambda>s4. Inr (s4\<lparr>firstTargetElement := Null\<rparr>))"
    using True by (simp add: clearAllBodyScrollLocks_def Let_def s1_def [symmetric] all)
  show ?thesis
    unfolding l r b
    by (cases "forEach clear_target (allTargetElements s) (s1\<lparr>handlers := []\<rparr>)")
      (auto simp add: andThen_def outcome_map_def set_navigator_def)
next
  case False
  then have "\<not> isIosDevice (s\<lparr>navigator := h\<rparr>)" by simp
  then show ?thesis
    by (simp add: std_clear False outcome_map_def set_navigator_def)
qed

section \<open>The platform constant is fixed when the module is loaded\<close>

lemma fold_enable_target_isIos [simp]:
  "isIosDevice (fold (enable_target t) xs s) = isIosDevice s"
  by (induction xs arbitrary: s) (simp_all add: enable_target_def Let_def)

lemma forEach_clear_target_isIos [simp]:
  "isIosDevice (state_of (forEach clear_target ts s)) = isIosDevice s"
proof (induction ts arbitrary: s)
  case Nil
  then show ?case by simp
next
  case (Cons t ts)
  then show ?case
    by (cases t) (simp_all add: clear_target_def andThen_def)
qed

lemma disable_isIos [simp]: "isIosDevice (disableBodyScroll t options s) = isIosDevice s"
  by (cases t) (simp_all add: disableBodyScroll_def Let_def setOverflowHidden_def setTimeout_def)

lemma enable_isIos [simp]: "isIosDevice (state_of (enableBodyScroll t s)) = isIosDevice s"
  by (cases t)
    (simp_all add: enableBodyScroll_def Let_def andThen_def restoreOverflowSetting_def
      setTimeout_def)

lemma touch_clear:
  "isIosDevice s \<Longrightarrow>
   clearAllBodyScrollLocks s =
     andThen
       (andThen
          (forEach clear_target (allTargetElements s)
             ((fold clear_handler (map snd (handlers s)) s)\<lparr>handlers := []\<rparr>))
          (\<lambda>s3. Inr (s3\<lparr>initialClientY := - 1\<rparr>)))
       (\<lambda>s4. Inr (s4\<lparr>firstTargetElement := Null\<rparr>))"
  by (simp add: clearAllBodyScrollLocks_def Let_def)

lemma state_of_andThen:
  "state_of (andThen r (\<lambda>s. Inr (f s))) = (if raises r then state_of r else f (state_of r))"
  by (cases r) (auto simp add: andThen_def)

lemma raises_andThen [simp]: "raises (andThen r (\<lambda>s. Inr (f s))) = raises r"
  by (cases r) (auto simp add: andThen_def)

lemma clear_isIos [simp]: "isIosDevice (state_of (clearAllBodyScrollLocks s)) = isIosDevice s"
proof (cases "isIosDevice s")
  case True
  then show ?thesis
    by (simp add: touch_clear state_of_andThen)
next
  case False
  then show ?thesis by (simp add: std_clear)
qed

lemma runNextTimer_isIos [simp]: "isIosDevice (runNextTimer s) = isIosDevice s"
proof (cases "timers s")
  case Nil
  then show ?thesis by (simp add: runNextTimer_alt)
next
  case (Cons t ts)
  then show ?thesis by (cases t) (simp_all add: runNextTimer_alt)
qed

lemma step_isIos [simp]: "isIosDevice (step a s) = isIosDevice s"
proof (cases a)
  case (TouchStartOn n e)
  then show ?thesis
    by (simp add: ontouchstart_callback_def split: option.splits callback.splits)
qed simp_all

lemma run_isIos [simp]: "isIosDevice (run as s) = isIosDevice s"
  by (induction as arbitrary: s) simp_all

text \<open>
  Claim C8, as the code has it.  The selector is the constant \<open>isIosDevice\<close>: it is
  computed once, when the module is loaded, from the platform string reported at that
  moment, and is true exactly when that string contains \<open>iPad\<close>, \<open>iPhone\<close> or \<open>iPod\<close>
  (which covers the three simulator names), false when the window, the navigator or the
  platform string is absent.  No operation, timer or gesture changes the constant, and the
  three operations do not look at the platform reported when they are called: changing it
  before a call or after it gives the same state.
\<close>

theorem platform_selector_fixed_at_load:
  "isIosDevice (module_load d) =
     (case navigator d of
        Navigator (Some p) \<Rightarrow>
          str_includes ''iPad'' p \<or> str_includes ''iPhone'' p \<or> str_includes ''iPod'' p
      | Navigator None \<Rightarrow> False
      | NoNavigator \<Rightarrow> False
      | NoWindow \<Rightarrow> False)
   \<and> isIosDevice (run as (module_load d)) = isIosDevice (module_load d)
   \<and> isIosDevice (set_navigator h s) = isIosDevice s
   \<and> disableBodyScroll t options (set_navigator h s)
       = set_navigator h (disableBodyScroll t options s)
   \<and> enableBodyScroll t (set_navigator h s)
       = outcome_map (set_navigator h) (enableBodyScroll t s)
   \<and> clearAllBodyScrollLocks (set_navigator h s)
       = outcome_map (set_navigator h) (clearAllBodyScrollLocks s)"
proof -
  have "isIosDevice (module_load d) =
     (case navigator d of
        Navigator (Some p) \<Rightarrow>
          str_includes ''iPad'' p \<or> str_includes ''iPhone'' p \<or> str_includes ''iPod'' p
      | Navigator None \<Rightarrow> False
      | NoNavigator \<Rightarrow> False
      | NoWindow \<Rightarrow> False)"
    by (simp del: detect_isIosDevice.simps(4) add: detect_platform_string
        split: host.splits option.splits)
  moreover have "isIosDevice (run as (module_load d)) = isIosDevice (module_load d)"
    by (rule run_isIos)
  moreover have "isIosDevice (set_navigator h s) = isIosDevice s"
    by (simp add: set_navigator_def)
  moreover have "disableBodyScroll t options (set_navigator h s)
       = set_navigator h (disableBodyScroll t options s)"
    by (simp add: set_navigator_def nav_disable)
  moreover have "enableBodyScroll t (set_navigator h s)
       = outcome_map (set_navigator h) (enableBodyScroll t s)"
    by (simp add: set_navigator_def nav_enable)
  moreover have "clearAllBodyScrollLocks (set_navigator h s)
       = outcome_map (set_navigator h) (clearAllBodyScrollLocks s)"
    by (simp add: set_navigator_def nav_clear)
  ultimately show ?thesis
    by blast
qed

text \<open>The claim as worded has the selector evaluated at every call.  Load the module on
  an iPhone and let the host report \<open>Win32\<close> afterwards: a lock call made then still
  takes the touch path (the target is registered, nothing is queued for the overflow
  styles), as the call made under \<open>iPhone\<close> does, although the selector applied to the
  platform reported at the call says standard.\<close>

theorem platform_selector_counterexample:
  "detect_isIosDevice (navigator (module_load (page iPhone 1015)))
   \<and> \<not> detect_isIosDevice (navigator (set_navigator desktop (module_load (page iPhone 1015))))
   \<and> allTargetElements (disableBodyScroll (Elem 1) None (module_load (page iPhone 1015)))
       = [Elem 1]
   \<and> allTargetElements
       (disableBodyScroll (Elem 1) None (set_navigator desktop (module_load (page iPhone 1015))))
       = [Elem 1]
   \<and> timers
       (disableBodyScroll (Elem 1) None (set_navigator desktop (module_load (page iPhone 1015))))
       = []"
  by (simp add: set_navigator_def disableBodyScroll_def Let_def)

section \<open>The operations on the touch platform\<close>

lemma map_set_fresh: "k \<notin> fst ` set m \<Longrightarrow> map_set k v m = m @ [(k, v)]"
  by (induction m) auto

lemma map_get_delete [simp]: "map_get (map_delete k m) k = None"
  by (induction m) (auto simp add: map_delete_def)

lemma map_delete_idem [simp]: "map_delete k (map_delete k m) = map_delete k m"
  by (simp add: map_delete_def)

lemma remove_listener_None [simp]: "remove_listener ty None ls = ls"
  by (simp add: remove_listener_def)

lemma touch_lock_new:
  assumes "isIosDevice s" and "Elem n \<notin> set (allTargetElements s)"
  shows "disableBodyScroll (Elem n) options s =
     s\<lparr>allTargetElements := allTargetElements s @ [Elem n],
       handlers := map_set (Elem n) (BodyHandler (Elem n)) (handlers s),
       body_listeners :=
         add_listener Touchmove (Some (BodyHandler (Elem n)))
           (add_listener Touchstart (Some (BodyHandler (Elem n))) (body_listeners s)),
       elements := (elements s)
         (n := (elements s n)\<lparr>ontouchstart := Some OnTouchStart,
                              ontouchmove := Some (OnTouchMove (Elem n))\<rparr>),
       firstTargetElement := (if truthy (firstTargetElement s) then firstTargetElement s else Elem n)\<rparr>"
  using assms by (simp add: disableBodyScroll_def Let_def addEventListener_def)

lemma touch_lock_old:
  assumes "isIosDevice s" and "\<not> truthy t \<or> t \<in> set (allTargetElements s)"
  shows "disableBodyScroll t options s =
     s\<lparr>firstTargetElement := (if truthy (firstTargetElement s) then firstTargetElement s else t)\<rparr>"
  using assms by (cases t) (auto simp add: disableBodyScroll_def Let_def)

lemma enable_target_self:
  "enable_target t t s =
     s\<lparr>body_listeners :=
         remove_listener Touchmove (map_get (handlers s) t)
           (remove_listener Touchstart (map_get (handlers s) t) (body_listeners s)),
       handlers := map_delete t (handlers s),
       firstTargetElement := (if t = firstTargetElement s then Null else firstTargetElement s)\<rparr>"
  by (simp add: enable_target_def Let_def removeEventListener_def)

lemma enable_target_other: "t \<noteq> x \<Longrightarrow> enable_target t x s = s"
  by (simp add: enable_target_def)

lemma enable_target_idem: "enable_target t t (enable_target t t s) = enable_target t t s"
  by (simp add: enable_target_self)

lemma fold_enable_target:
  "fold (enable_target t) xs s = (if t \<in> set xs then enable_target t t s else s)"
proof (induction xs arbitrary: s)
  case Nil
  then show ?case by simp
next
  case (Cons x xs)
  show ?case
  proof (cases "t = x")
    case True
    have "fold (enable_target t) xs (enable_target t t s) = enable_target t t s"
      by (simp add: Cons.IH [of "enable_target t t s"] enable_target_idem)
    then show ?thesis
      using True by simp
  next
    case False
    then show ?thesis
      by (auto simp add: Cons.IH enable_target_other)
  qed
qed

lemma touch_unlock_element:
  assumes "isIosDevice s"
  shows "enableBodyScroll (Elem n) s =
     Inr ((if Elem n \<in> set (allTargetElements s) then enable_target (Elem n) (Elem n) s else s)
            \<lparr>elements := null_callbacks (Elem n) (elements s),
             allTargetElements := filter (\<lambda>elem. elem \<noteq> Elem n) (allTargetElements s)\<rparr>)"
  using assms
  by (simp add: enableBodyScroll_def Let_def fold_enable_target andThen_def enable_target_self)

lemma touch_unlock_absent:
  assumes "isIosDevice s" and "\<not> truthy t"
  shows "enableBodyScroll t s =
     Inl (TypeError, if t \<in> set (allTargetElements s) then enable_target t t s else s)"
  using assms
  by (cases t) (simp_all add: enableBodyScroll_def Let_def fold_enable_target andThen_def)

lemma clear_handler_alt:
  "clear_handler l s = s\<lparr>body_listeners := drop_handler l (body_listeners s)\<rparr>"
  by (simp add: clear_handler_def drop_handler_def removeEventListener_def)

lemma fold_clear_handler:
  "fold clear_handler ls s = s\<lparr>body_listeners := fold drop_handler ls (body_listeners s)\<rparr>"
proof (induction ls arbitrary: s)
  case Nil
  then show ?case by simp
next
  case (Cons l ls)
  have "fold clear_handler (l # ls) s = fold clear_handler ls (clear_handler l s)"
    by simp
  also have "\<dots> = (clear_handler l s)
      \<lparr>body_listeners := fold drop_handler ls (body_listeners (clear_handler l s))\<rparr>"
    by (rule Cons.IH)
  also have "\<dots> = s\<lparr>body_listeners := fold drop_handler (l # ls) (body_listeners s)\<rparr>"
    by (simp add: clear_handler_alt)
  finally show ?case .
qed

lemma set_drop_handler:
  "set (drop_handler l ls) = set ls - {(Touchstart, l), (Touchmove, l)}"
  by (auto simp add: drop_handler_def remove_listener_def)

lemma set_fold_drop_handler:
  "set (fold drop_handler hs ls) = set ls - {(ty, l). l \<in> set hs}"
proof (induction hs arbitrary: ls)
  case Nil
  then show ?case by simp
next
  case (Cons h hs)
  have "(ty, h) \<in> {(Touchstart, h), (Touchmove, h)}" for ty
    by (cases ty) simp_all
  then show ?case
    by (auto simp add: Cons.IH set_drop_handler)
qed

lemma fold_null_callbacks_in:
  "Elem n \<in> set ts \<Longrightarrow>
   ontouchstart (fold null_callbacks ts els n) = None
   \<and> ontouchmove (fold null_callbacks ts els n) = None"
proof (induction ts arbitrary: els)
  case Nil
  then show ?case by simp
next
  case (Cons t ts)
  have keep: "ontouchstart (fold null_callbacks ts els' n) = None
      \<and> ontouchmove (fold null_callbacks ts els' n) = None"
    if "ontouchstart (els' n) = None \<and> ontouchmove (els' n) = None" for els'
    using that
  proof (induction ts arbitrary: els')
    case Nil
    then show ?case by simp
  next
    case (Cons u us)
    show ?case
      by (cases u) (simp_all add: Cons.IH Cons.prems)
  qed
  show ?case
  proof (cases "t = Elem n")
    case True
    then show ?thesis by (simp add: keep)
  next
    case False
    then show ?thesis using Cons by simp
  qed
qed

lemma fold_null_callbacks_out:
  "Elem n \<notin> set ts \<Longrightarrow> fold null_callbacks ts els n = els n"
proof (induction ts arbitrary: els)
  case Nil
  then show ?case by simp
next
  case (Cons t ts)
  then show ?case by (cases t) simp_all
qed

lemma forEach_clear_target:
  "\<forall>t \<in> set ts. truthy t \<Longrightarrow>
   forEach clear_target ts s =
     Inr (s\<lparr>elements := fold null_callbacks ts (elements s),
            allTargetElements := (if ts = [] then allTargetElements s else [])\<rparr>)"
proof (induction ts arbitrary: s)
  case Nil
  then show ?case by simp
next
  case (Cons t ts)
  from Cons.prems obtain n where t: "t = Elem n"
    by (cases t) simp_all
  have ts: "\<forall>t \<in> set ts. truthy t"
    using Cons.prems by simp
  have "clear_target t s =
      Inr (s\<lparr>elements := null_callbacks t (elements s), allTargetElements := []\<rparr>)"
    by (simp add: t clear_target_def andThen_def)
  then show ?case
    by (simp add: andThen_def Cons.IH [OF ts])
qed

lemma touch_clear_ok:
  assumes "isIosDevice s" and "\<forall>t \<in> set (allTargetElements s). truthy t"
  shows "clearAllBodyScrollLocks s =
     Inr (s\<lparr>body_listeners := fold drop_handler (map snd (handlers s)) (body_listeners s),
            handlers := [],
            elements := fold null_callbacks (allTargetElements s) (elements s),
            allTargetElements := [],
            initialClientY := - 1,
            firstTargetElement := Null\<rparr>)"
proof -
  let ?s2 = "(fold clear_handler (map snd (handlers s)) s)\<lparr>handlers := []\<rparr>"
  have "forEach clear_target (allTargetElements s) ?s2 =
     Inr (?s2\<lparr>elements := fold null_callbacks (allTargetElements s) (elements ?s2),
            allTargetElements := (if allTargetElements s = [] then allTargetElements ?s2 else [])\<rparr>)"
    by (rule forEach_clear_target [OF assms(2)])
  then show ?thesis
    by (simp add: touch_clear [OF assms(1)] andThen_def fold_clear_handler)
qed

section \<open>Invariants of every history\<close>

lemma registry_inv_load: "registry_inv d (module_load d)"
  by (simp add: registry_inv_def)

lemma handlers_delete:
  "map_delete t (map (\<lambda>t. (t, BodyHandler t)) xs)
   = map (\<lambda>t. (t, BodyHandler t)) (filter (\<lambda>elem. elem \<noteq> t) xs)"
  by (induction xs) (simp_all add: map_delete_def)

lemma registry_inv_lock:
  assumes "registry_inv d s"
  shows "registry_inv d (disableBodyScroll t options s)"
proof (cases "isIosDevice s")
  case False
  then show ?thesis
    using assms by (simp add: std_lock registry_inv_def)
next
  case True
  show ?thesis
  proof (cases "\<not> truthy t \<or> t \<in> set (allTargetElements s)")
    case True
    then show ?thesis
      using assms \<open>isIosDevice s\<close> by (simp add: touch_lock_old registry_inv_def)
  next
    case False
    then obtain n where t: "t = Elem n" and new: "Elem n \<notin> set (allTargetElements s)"
      by (cases t) simp_all
    have "Elem n \<notin> fst ` set (handlers s)"
      using assms new by (auto simp add: registry_inv_def)
    then have "map_set (Elem n) (BodyHandler (Elem n)) (handlers s)
        = handlers s @ [(Elem n, BodyHandler (Elem n))]"
      by (rule map_set_fresh)
    then show ?thesis
      using assms \<open>isIosDevice s\<close> new
      by (simp add: t touch_lock_new registry_inv_def)
  qed
qed

lemma registry_inv_unlock:
  assumes "registry_inv d s"
  shows "registry_inv d (state_of (enableBodyScroll t s))"
proof (cases "isIosDevice s")
  case False
  then show ?thesis
    using assms by (simp add: std_unlock registry_inv_def)
next
  case True
  show ?thesis
  proof (cases t)
    case (Elem n)
    show ?thesis
    proof (cases "Elem n \<in> set (allTargetElements s)")
      case True
      then show ?thesis
        using assms \<open>isIosDevice s\<close>
        by (simp add: Elem touch_unlock_element enable_target_self registry_inv_def
            handlers_delete)
    next
      case False
      then have "filter (\<lambda>elem. elem \<noteq> Elem n) (allTargetElements s) = allTargetElements s"
        by (auto simp add: filter_id_conv)
      then show ?thesis
        using assms \<open>isIosDevice s\<close> False
        by (simp add: Elem touch_unlock_element registry_inv_def)
    qed
  next
    case Undefined
    then have "t \<notin> set (allTargetElements s)"
      using assms by (auto simp add: registry_inv_def)
    then show ?thesis
      using assms True Undefined by (simp add: touch_unlock_absent)
  next
    case Null
    then have "t \<notin> set (allTargetElements s)"
      using assms by (auto simp add: registry_inv_def)
    then show ?thesis
      using assms True Null by (simp add: touch_unlock_absent)
  qed
qed

lemma registry_inv_clear:
  assumes "registry_inv d s"
  shows "registry_inv d (state_of (clearAllBodyScrollLocks s))"
proof (cases "isIosDevice s")
  case False
  then show ?thesis
    using assms by (simp add: std_clear registry_inv_def)
next
  case True
  have "\<forall>t \<in> set (allTargetElements s). truthy t"
    using assms by (simp add: registry_inv_def)
  from touch_clear_ok [OF True this] show ?thesis
    using assms True by (simp add: registry_inv_def)
qed

lemma registry_inv_timer:
  assumes "registry_inv d s"
  shows "registry_inv d (runNextTimer s)"
proof (cases "timers s")
  case Nil
  then show ?thesis using assms by (simp add: runNextTimer_alt)
next
  case (Cons t ts)
  then have "\<not> isIosDevice s"
    using assms by (auto simp add: registry_inv_def)
  then show ?thesis
    using assms Cons by (simp add: runNextTimer_alt registry_inv_def)
qed

lemma registry_inv_touchstart:
  assumes "pristine d" and "registry_inv d s"
  shows "registry_inv d (step (TouchStartOn n event) s)"
proof (cases "isIosDevice s")
  case True
  then show ?thesis
    using assms(2)
    by (simp add: registry_inv_def ontouchstart_callback_def
        split: option.splits callback.splits)
next
  case False
  then have "elements s = elements d"
    using assms(2) by (simp add: registry_inv_def)
  then have "ontouchstart (elements s n) \<noteq> Some OnTouchStart"
    using assms(1) by (simp add: pristine_def)
  then have "step (TouchStartOn n event) s = s"
    by (simp split: option.splits callback.splits)
  then show ?thesis
    using assms(2) by simp
qed

lemma registry_inv_step:
  assumes "pristine d" and "registry_inv d s"
  shows "registry_inv d (step a s)"
proof (cases a)
  case (Lock t options)
  then show ?thesis by (simp add: registry_inv_lock [OF assms(2)])
next
  case (Unlock t)
  then show ?thesis by (simp add: registry_inv_unlock [OF assms(2)])
next
  case UnlockAll
  then show ?thesis by (simp add: registry_inv_clear [OF assms(2)])
next
  case RunTimer
  then show ?thesis by (simp add: registry_inv_timer [OF assms(2)])
next
  case (TouchStartOn n event)
  then show ?thesis by (simp only: registry_inv_touchstart [OF assms])
next
  case (TouchMoveOn n event)
  then show ?thesis using assms(2) by simp
qed

lemma registry_inv_run:
  assumes "pristine d" and "registry_inv d s"
  shows "registry_inv d (run as s)"
  using assms(2)
proof (induction as arbitrary: s)
  case Nil
  then show ?case by simp
next
  case (Cons a as)
  then show ?case
    by (simp add: registry_inv_step [OF assms(1)])
qed

lemma registry_inv_reachable:
  "pristine d \<Longrightarrow> registry_inv d (run as (module_load d))"
  by (rule registry_inv_run [OF _ registry_inv_load])

section \<open>The saved styles are never lost\<close>

lemma same_styles_refl [simp]: "same_styles s s"
  by (simp add: same_styles_def)

lemma same_styles_trans: "same_styles s s' \<Longrightarrow> same_styles s' s'' \<Longrightarrow> same_styles s s''"
  by (simp add: same_styles_def)

lemma styles_kept_same: "styles_kept d s \<Longrightarrow> same_styles s s' \<Longrightarrow> styles_kept d s'"
  by (cases "previousBodyOverflowSetting s"; cases "previousBodyPaddingRight s")
    (simp_all add: styles_kept_def same_styles_def)

lemma same_styles_lock: "same_styles s (disableBodyScroll t options s)"
proof (cases "isIosDevice s")
  case False
  then show ?thesis by (simp add: std_lock same_styles_def)
next
  case True
  show ?thesis
  proof (cases "\<not> truthy t \<or> t \<in> set (allTargetElements s)")
    case True
    then show ?thesis
      using \<open>isIosDevice s\<close> by (simp add: touch_lock_old same_styles_def)
  next
    case False
    then obtain n where "t = Elem n" and "Elem n \<notin> set (allTargetElements s)"
      by (cases t) simp_all
    then show ?thesis
      using \<open>isIosDevice s\<close> by (simp add: touch_lock_new same_styles_def)
  qed
qed

lemma same_styles_unlock: "same_styles s (state_of (enableBodyScroll t s))"
proof (cases "isIosDevice s")
  case False
  then show ?thesis by (simp add: std_unlock same_styles_def)
next
  case True
  show ?thesis
  proof (cases "truthy t")
    case True
    then obtain n where "t = Elem n" by (cases t) simp_all
    then show ?thesis
      using \<open>isIosDevice s\<close>
      by (simp add: touch_unlock_element enable_target_self same_styles_def)
  next
    case False
    then show ?thesis
      using \<open>isIosDevice s\<close>
      by (simp add: touch_unlock_absent enable_target_self same_styles_def)
  qed
qed

lemma same_styles_forEach_clear_target:
  "same_styles s (state_of (forEach clear_target ts s))"
proof (induction ts arbitrary: s)
  case Nil
  then show ?case by simp
next
  case (Cons t ts)
  show ?case
  proof (cases t)
    case (Elem n)
    let ?s1 = "s\<lparr>elements := null_callbacks (Elem n) (elements s), allTargetElements := []\<rparr>"
    have "forEach clear_target (t # ts) s = forEach clear_target ts ?s1"
      by (simp add: Elem clear_target_def andThen_def)
    moreover have "same_styles s ?s1"
      by (simp add: same_styles_def)
    ultimately show ?thesis
      using Cons.IH [of ?s1] by (simp only: same_styles_trans)
  next
    case Undefined
    then show ?thesis by (simp add: clear_target_def andThen_def)
  next
    case Null
    then show ?thesis by (simp add: clear_target_def andThen_def)
  qed
qed

lemma same_styles_clear: "same_styles s (state_of (clearAllBodyScrollLocks s))"
proof (cases "isIosDevice s")
  case False
  then show ?thesis by (simp add: std_clear same_styles_def)
next
  case True
  let ?s2 = "(fold clear_handler (map snd (handlers s)) s)\<lparr>handlers := []\<rparr>"
  have a: "same_styles s ?s2"
    by (simp add: fold_clear_handler same_styles_def)
  have b: "same_styles ?s2 (state_of (forEach clear_target (allTargetElements s) ?s2))"
    by (rule same_styles_forEach_clear_target)
  have "same_styles s (state_of (forEach clear_target (allTargetElements s) ?s2))"
    by (rule same_styles_trans [OF a b])
  then show ?thesis
    by (simp add: touch_clear [OF True] state_of_andThen same_styles_def)
qed

lemma styles_kept_hidden:
  "styles_kept d s \<Longrightarrow> styles_kept d (setOverflowHidden_callback options s)"
  by (cases "previousBodyOverflowSetting s"; cases "previousBodyPaddingRight s")
    (auto simp add: styles_kept_def hidden_overflow hidden_padding reserves_gap_def)

lemma styles_kept_restore:
  "styles_kept d s \<Longrightarrow> styles_kept d (restoreOverflowSetting_callback s)"
  by (cases "previousBodyOverflowSetting s"; cases "previousBodyPaddingRight s")
    (simp_all add: styles_kept_def restore_overflow restore_padding)

lemma styles_kept_run_timer: "styles_kept d s \<Longrightarrow> styles_kept d (run_timer t s)"
  by (cases t) (simp_all add: styles_kept_hidden styles_kept_restore)

lemma styles_kept_timers_upd: "styles_kept d (s\<lparr>timers := ts\<rparr>) = styles_kept d s"
  by (cases "previousBodyOverflowSetting s"; cases "previousBodyPaddingRight s")
    (simp_all add: styles_kept_def)

lemma styles_kept_fold_run_timer:
  "styles_kept d s \<Longrightarrow> styles_kept d (fold run_timer ts s)"
  by (induction ts arbitrary: s) (simp_all add: styles_kept_run_timer)

lemma styles_kept_runNextTimer: "styles_kept d s \<Longrightarrow> styles_kept d (runNextTimer s)"
  by (cases "timers s")
    (simp_all add: runNextTimer_alt styles_kept_timers_upd styles_kept_run_timer)

lemma styles_kept_runAllTimers: "styles_kept d s \<Longrightarrow> styles_kept d (runAllTimers s)"
  by (simp add: runAllTimers_alt styles_kept_timers_upd styles_kept_fold_run_timer)

lemma same_styles_touchstart: "same_styles s (step (TouchStartOn n event) s)"
  by (simp add: same_styles_def ontouchstart_callback_def split: option.splits callback.splits)

lemma styles_kept_step:
  assumes k: "styles_kept d s"
  shows "styles_kept d (step a s)"
proof (cases a)
  case (Lock t options)
  then show ?thesis
    by (simp add: styles_kept_same [OF k same_styles_lock])
next
  case (Unlock t)
  then show ?thesis
    by (simp add: styles_kept_same [OF k same_styles_unlock])
next
  case UnlockAll
  then show ?thesis
    by (simp add: styles_kept_same [OF k same_styles_clear])
next
  case RunTimer
  then show ?thesis by (simp add: styles_kept_runNextTimer [OF k])
next
  case (TouchStartOn n event)
  then show ?thesis
    by (simp only: styles_kept_same [OF k same_styles_touchstart])
next
  case (TouchMoveOn n event)
  then show ?thesis using k by simp
qed

lemma styles_kept_run: "styles_kept d s \<Longrightarrow> styles_kept d (run as s)"
  by (induction as arbitrary: s) (simp_all add: styles_kept_step)

lemma styles_kept_load: "styles_kept d (module_load d)"
  by (simp add: styles_kept_def)

lemma styles_kept_reachable: "styles_kept d (run as (module_load d))"
  by (rule styles_kept_run [OF styles_kept_load])




section \<open>Unlocking everything\<close>

lemma restore_to_document:
  assumes "styles_kept d x"
  shows "body_overflow (restoreOverflowSetting_callback x) = body_overflow d"
    and "documentElement_overflow (restoreOverflowSetting_callback x) = documentElement_overflow d"
    and "body_paddingRight (restoreOverflowSetting_callback x) = body_paddingRight d"
    and "previousBodyOverflowSetting (restoreOverflowSetting_callback x) = None"
    and "previousDocumentElementOverflowSetting (restoreOverflowSetting_callback x) = None"
    and "previousBodyPaddingRight (restoreOverflowSetting_callback x) = None"
  using assms
  by (cases "previousBodyOverflowSetting x"; cases "previousBodyPaddingRight x";
      simp add: styles_kept_def restore_overflow restore_padding)+

lemma std_clear_settled:
  assumes "\<not> isIosDevice s"
  shows "runAllTimers (state_of (clearAllBodyScrollLocks s))
     = (restoreOverflowSetting_callback (fold run_timer (timers s) s))
         \<lparr>timers := [], firstTargetElement := Null\<rparr>"
proof -
  have "state_of (clearAllBodyScrollLocks s)
      = s\<lparr>timers := timers s @ [RestoreOverflowSettingTimer], firstTargetElement := Null\<rparr>"
    by (simp add: std_clear [OF assms])
  then show ?thesis
    by (simp only: runAllTimers_upd) simp
qed

lemma touch_clear_listeners:
  assumes "handlers s = map (\<lambda>t. (t, BodyHandler t)) (allTargetElements s)"
    and "t \<in> set (allTargetElements s)"
  shows "(ty, BodyHandler t) \<notin> set (fold drop_handler (map snd (handlers s)) (body_listeners s))"
proof -
  have "BodyHandler t \<in> set (map snd (handlers s))"
    using assms by (simp add: comp_def)
  then show ?thesis
    by (simp add: set_fold_drop_handler)
qed

text \<open>
  Claim C4.  Let \<open>s\<close> be any state the module reaches from a document \<open>d\<close> by lock calls,
  or by any other mix of calls, timers and gestures, and let \<open>s'\<close> be the state after
  \<^verbatim>\<open>clearAllBodyScrollLocks\<close>.  The call returns normally, and in \<open>s'\<close> no target is
  registered, the handler map is empty, \<open>firstTargetElement\<close> is \<^verbatim>\<open>null\<close> and
  \<open>initialClientY\<close> is \<open>-1\<close>; the body-level listeners of every target that was
  registered are gone from the body, and the two gesture callbacks of every such target are
  \<^verbatim>\<open>null\<close>.  On the standard platform, once the queued callbacks have run, the overflow
  of both root containers and the trailing padding are those of \<open>d\<close>, nothing is held in
  the \<^verbatim>\<open>previous...\<close> variables, and no callback is waiting.
\<close>

theorem unlock_all_resets:
  assumes "pristine d"
    and "s = run as (module_load d)"
    and "s' = state_of (clearAllBodyScrollLocks s)"
  shows "\<not> raises (clearAllBodyScrollLocks s)
       \<and> allTargetElements s' = [] \<and> handlers s' = []
       \<and> firstTargetElement s' = Null \<and> initialClientY s' = - 1
       \<and> (\<forall>t \<in> set (allTargetElements s).
             (Touchstart, BodyHandler t) \<notin> set (body_listeners s')
             \<and> (Touchmove, BodyHandler t) \<notin> set (body_listeners s'))
       \<and> (\<forall>n. Elem n \<in> set (allTargetElements s) \<longrightarrow>
             ontouchstart (elements s' n) = None \<and> ontouchmove (elements s' n) = None)
       \<and> (\<not> isIosDevice s \<longrightarrow>
             body_overflow (runAllTimers s') = body_overflow d
             \<and> documentElement_overflow (runAllTimers s') = documentElement_overflow d
             \<and> body_paddingRight (runAllTimers s') = body_paddingRight d
             \<and> previousBodyOverflowSetting (runAllTimers s') = None
             \<and> previousDocumentElementOverflowSetting (runAllTimers s') = None
             \<and> previousBodyPaddingRight (runAllTimers s') = None
             \<and> timers (runAllTimers s') = []
             \<and> firstTargetElement (runAllTimers s') = Null)"
proof (cases "isIosDevice s")
  case True
  have inv: "registry_inv d s"
    unfolding assms(2) by (rule registry_inv_reachable [OF assms(1)])
  then have el: "\<forall>t \<in> set (allTargetElements s). truthy t"
    and hs: "handlers s = map (\<lambda>t. (t, BodyHandler t)) (allTargetElements s)"
    by (simp_all add: registry_inv_def)
  note c = touch_clear_ok [OF True el]
  have s': "s' = s\<lparr>body_listeners := fold drop_handler (map snd (handlers s)) (body_listeners s),
            handlers := [],
            elements := fold null_callbacks (allTargetElements s) (elements s),
            allTargetElements := [],
            initialClientY := - 1,
            firstTargetElement := Null\<rparr>"
    by (simp add: assms(3) c)
  have "\<not> raises (clearAllBodyScrollLocks s)"
    by (simp add: c)
  moreover have "allTargetElements s' = [] \<and> handlers s' = []
       \<and> firstTargetElement s' = Null \<and> initialClientY s' = - 1"
    by (simp add: s')
  moreover have "\<forall>t \<in> set (allTargetElements s).
             (Touchstart, BodyHandler t) \<notin> set (body_listeners s')
             \<and> (Touchmove, BodyHandler t) \<notin> set (body_listeners s')"
    using touch_clear_listeners [OF hs] by (simp add: s')
  moreover have "\<forall>n. Elem n \<in> set (allTargetElements s) \<longrightarrow>
             ontouchstart (elements s' n) = None \<and> ontouchmove (elements s' n) = None"
    using fold_null_callbacks_in by (simp add: s')
  ultimately show ?thesis
    using True by blast
next
  case False
  have inv: "registry_inv d s"
    unfolding assms(2) by (rule registry_inv_reachable [OF assms(1)])
  with False have none: "allTargetElements s = []" "handlers s = []" "initialClientY s = - 1"
    by (simp_all add: registry_inv_def)
  have s': "s' = s\<lparr>timers := timers s @ [RestoreOverflowSettingTimer], firstTargetElement := Null\<rparr>"
    by (simp add: assms(3) std_clear [OF False])
  have kept: "styles_kept d (fold run_timer (timers s) s)"
    unfolding assms(2) by (rule styles_kept_fold_run_timer [OF styles_kept_reachable])
  have settled: "runAllTimers s'
      = (restoreOverflowSetting_callback (fold run_timer (timers s) s))
          \<lparr>timers := [], firstTargetElement := Null\<rparr>"
    unfolding assms(3) by (rule std_clear_settled [OF False])
  have "\<not> raises (clearAllBodyScrollLocks s)"
    by (simp add: std_clear [OF False])
  moreover have "allTargetElements s' = [] \<and> handlers s' = []
       \<and> firstTargetElement s' = Null \<and> initialClientY s' = - 1"
    by (simp add: s' none)
  moreover have "body_overflow (runAllTimers s') = body_overflow d
             \<and> documentElement_overflow (runAllTimers s') = documentElement_overflow d
             \<and> body_paddingRight (runAllTimers s') = body_paddingRight d
             \<and> previousBodyOverflowSetting (runAllTimers s') = None
             \<and> previousDocumentElementOverflowSetting (runAllTimers s') = None
             \<and> previousBodyPaddingRight (runAllTimers s') = None
             \<and> timers (runAllTimers s') = []
             \<and> firstTargetElement (runAllTimers s') = Null"
    by (simp add: settled restore_to_document [OF kept])
  ultimately show ?thesis
    using none(1) by simp
qed
lemma pristine_page [simp]: "pristine (page h w)"
  by (simp add: pristine_def plain_element_def)

lemma iphone_two_locked:
  "allTargetElements
     (run [Lock (Elem 1) None, Lock (Elem 2) None, TouchStartOn 1 (single_touch 100)]
        (module_load (page iPhone 1015))) = [Elem 1, Elem 2]"
  by (simp add: disableBodyScroll_def Let_def addEventListener_def add_listener_def
      ontouchstart_callback_def single_touch_def)

theorem unlock_all_resets_witness:
  "allTargetElements
     (state_of (clearAllBodyScrollLocks
        (run [Lock (Elem 1) None, Lock (Elem 2) None, TouchStartOn 1 (single_touch 100)]
           (module_load (page iPhone 1015))))) = []
   \<and> initialClientY
       (state_of (clearAllBodyScrollLocks
          (run [Lock (Elem 1) None, Lock (Elem 2) None, TouchStartOn 1 (single_touch 100)]
             (module_load (page iPhone 1015))))) = - 1
   \<and> (Touchmove, BodyHandler (Elem 2)) \<notin> set (body_listeners
       (state_of (clearAllBodyScrollLocks
          (run [Lock (Elem 1) None, Lock (Elem 2) None, TouchStartOn 1 (single_touch 100)]
             (module_load (page iPhone 1015))))))
   \<and> ontouchmove (elements
       (state_of (clearAllBodyScrollLocks
          (run [Lock (Elem 1) None, Lock (Elem 2) None, TouchStartOn 1 (single_touch 100)]
             (module_load (page iPhone 1015))))) 1) = None
   \<and> body_overflow
       (runAllTimers (state_of (clearAllBodyScrollLocks
          (run [Lock (Elem 1) gap_option, RunTimer, Lock (Elem 2) None]
             (module_load (page desktop 1015)))))) = ''auto''
   \<and> body_paddingRight
       (runAllTimers (state_of (clearAllBodyScrollLocks
          (run [Lock (Elem 1) gap_option, RunTimer, Lock (Elem 2) None]
             (module_load (page desktop 1015)))))) = ''3px''"
proof -
  let ?t = "run [Lock (Elem 1) None, Lock (Elem 2) None, TouchStartOn 1 (single_touch 100)]
     (module_load (page iPhone 1015))"
  let ?s = "run [Lock (Elem 1) gap_option, RunTimer, Lock (Elem 2) None]
     (module_load (page desktop 1015))"
  have in1: "Elem 1 \<in> set (allTargetElements ?t)" and in2: "Elem 2 \<in> set (allTargetElements ?t)"
    by (simp_all only: iphone_two_locked) simp_all
  have std: "\<not> isIosDevice ?s"
    by simp
  have v: "body_overflow (page desktop 1015) = ''auto''"
    "body_paddingRight (page desktop 1015) = ''3px''"
    by simp_all
  note A = unlock_all_resets [of "page iPhone 1015" _
      "[Lock (Elem 1) None, Lock (Elem 2) None, TouchStartOn 1 (single_touch 100)]" _,
      OF pristine_page refl refl]
  note B = unlock_all_resets [of "page desktop 1015" _
      "[Lock (Elem 1) gap_option, RunTimer, Lock (Elem 2) None]" _,
      OF pristine_page refl refl]
  from A have c1: "allTargetElements (state_of (clearAllBodyScrollLocks ?t)) = []"
    and c2: "initialClientY (state_of (clearAllBodyScrollLocks ?t)) = - 1"
    by blast+
  from A in2 have c3: "(Touchmove, BodyHandler (Elem 2))
      \<notin> set (body_listeners (state_of (clearAllBodyScrollLocks ?t)))"
    by blast
  from A in1 have c4: "ontouchmove (elements (state_of (clearAllBodyScrollLocks ?t)) 1) = None"
    by blast
  from B std have c5: "body_overflow (runAllTimers (state_of (clearAllBodyScrollLocks ?s)))
      = body_overflow (page desktop 1015)"
    and c6: "body_paddingRight (runAllTimers (state_of (clearAllBodyScrollLocks ?s)))
      = body_paddingRight (page desktop 1015)"
    by blast+
  show ?thesis
    using c1 c2 c3 c4 c5 c6 by (simp only: v) blast
qed

section \<open>The gesture origin\<close>

lemma lock_initialClientY [simp]:
  "initialClientY (disableBodyScroll t options s) = initialClientY s"
  by (cases t) (simp_all add: disableBodyScroll_def Let_def setOverflowHidden_def setTimeout_def)

lemma unlock_initialClientY [simp]:
  "initialClientY (state_of (enableBodyScroll t s)) = initialClientY s"
proof (cases "isIosDevice s")
  case False
  then show ?thesis by (simp add: std_unlock)
next
  case True
  show ?thesis
  proof (cases "truthy t")
    case True
    then obtain n where "t = Elem n" by (cases t) simp_all
    then show ?thesis
      using \<open>isIosDevice s\<close> by (simp add: touch_unlock_element enable_target_self)
  next
    case False
    then show ?thesis
      using \<open>isIosDevice s\<close> by (simp add: touch_unlock_absent enable_target_self)
  qed
qed

text \<open>
  Claim C9, as the code has it.  \<open>initialClientY\<close> is \<open>-1\<close> when the module is loaded,
  after every \<^verbatim>\<open>clearAllBodyScrollLocks\<close>, and in every state reached on the standard
  platform.  Neither \<^verbatim>\<open>disableBodyScroll\<close> nor \<^verbatim>\<open>enableBodyScroll\<close> writes it: after
  \<^verbatim>\<open>enableBodyScroll\<close> it is what it was before, also when the call removed the last
  registered target.
\<close>

theorem gesture_origin_reset:
  "initialClientY (module_load d) = - 1
   \<and> (pristine d \<longrightarrow>
        initialClientY (state_of (clearAllBodyScrollLocks (run as (module_load d)))) = - 1)
   \<and> (pristine d \<and> \<not> detect_isIosDevice (navigator d) \<longrightarrow>
        initialClientY (run as (module_load d)) = - 1)
   \<and> initialClientY (state_of (enableBodyScroll t s)) = initialClientY s
   \<and> initialClientY (disableBodyScroll t options s) = initialClientY s"
proof -
  have "initialClientY (state_of (clearAllBodyScrollLocks (run as (module_load d)))) = - 1"
    if p: "pristine d"
  proof -
    let ?s = "run as (module_load d)"
    have inv: "registry_inv d ?s"
      by (rule registry_inv_reachable [OF p])
    show ?thesis
    proof (cases "isIosDevice ?s")
      case True
      have "\<forall>t \<in> set (allTargetElements ?s). truthy t"
        using inv by (simp add: registry_inv_def)
      from touch_clear_ok [OF True this] show ?thesis
        by simp
    next
      case False
      then show ?thesis
        using inv by (simp add: std_clear registry_inv_def)
    qed
  qed
  moreover have "initialClientY (run as (module_load d)) = - 1"
    if "pristine d \<and> \<not> detect_isIosDevice (navigator d)"
  proof -
    have "registry_inv d (run as (module_load d))"
      using that by (simp add: registry_inv_reachable)
    moreover have "\<not> isIosDevice (run as (module_load d))"
      using that by simp
    ultimately show ?thesis
      by (simp add: registry_inv_def)
  qed
  ultimately show ?thesis
    by simp
qed

theorem gesture_origin_reset_witness:
  "initialClientY
     (state_of (clearAllBodyScrollLocks
        (run [Lock (Elem 1) None, TouchStartOn 1 (single_touch 100)]
           (module_load (page iPhone 1015))))) = - 1
   \<and> initialClientY
       (run [Lock (Elem 1) None, TouchStartOn 1 (single_touch 100), Unlock (Elem 1)]
          (module_load (page desktop 1015))) = - 1"
proof -
  have p: "pristine (page iPhone 1015)" "pristine (page desktop 1015)"
    and std: "\<not> detect_isIosDevice (navigator (page desktop 1015))"
    by simp_all
  note A = gesture_origin_reset [of "page iPhone 1015"
      "[Lock (Elem 1) None, TouchStartOn 1 (single_touch 100)]"]
  note B = gesture_origin_reset [of "page desktop 1015"
      "[Lock (Elem 1) None, TouchStartOn 1 (single_touch 100), Unlock (Elem 1)]"]
  from A p(1) have c1: "initialClientY
     (state_of (clearAllBodyScrollLocks
        (run [Lock (Elem 1) None, TouchStartOn 1 (single_touch 100)]
           (module_load (page iPhone 1015))))) = - 1"
    by blast
  from B p(2) std have c2: "initialClientY
       (run [Lock (Elem 1) None, TouchStartOn 1 (single_touch 100), Unlock (Elem 1)]
          (module_load (page desktop 1015))) = - 1"
    by blast
  show ?thesis
    using c1 c2 by blast
qed

text \<open>The claim as worded wants the sentinel whenever no target is registered.  On the
  touch platform: lock an element, touch it at \<open>y = 100\<close>, unlock it.  No target is
  registered any more, and \<open>initialClientY\<close> is still \<open>100\<close>.\<close>

theorem gesture_origin_counterexample:
  "isIosDevice (module_load (page iPhone 1015))
   \<and> allTargetElements
       (run [Lock (Elem 1) None, TouchStartOn 1 (single_touch 100), Unlock (Elem 1)]
          (module_load (page iPhone 1015))) = []
   \<and> initialClientY
       (run [Lock (Elem 1) None, TouchStartOn 1 (single_touch 100), Unlock (Elem 1)]
          (module_load (page iPhone 1015))) = 100"
proof -
  let ?s0 = "module_load (page iPhone 1015)"
  define s2 where "s2 = (disableBodyScroll (Elem 1) None ?s0)\<lparr>initialClientY := 100\<rparr>"
  have s2: "step (TouchStartOn 1 (single_touch 100)) (disableBodyScroll (Elem 1) None ?s0) = s2"
    unfolding s2_def by (rule touch_example_start)
  have r: "run [Lock (Elem 1) None, TouchStartOn 1 (single_touch 100), Unlock (Elem 1)] ?s0
      = state_of (enableBodyScroll (Elem 1) s2)"
    by (simp only: run.simps step.simps(1) step.simps(2) s2)
  have touch: "isIosDevice s2"
    by (simp add: s2_def)
  have all: "allTargetElements s2 = [Elem 1]"
    by (simp add: s2_def disableBodyScroll_def Let_def)
  have y: "initialClientY (state_of (enableBodyScroll (Elem 1) s2)) = 100"
    by (simp add: s2_def)
  have e: "allTargetElements (state_of (enableBodyScroll (Elem 1) s2)) = []"
    unfolding touch_unlock_element [OF touch] by (simp add: all)
  show ?thesis
    unfolding r using y e by simp
qed

section \<open>Exceptions and calls that change nothing\<close>

lemma touch_clear_fresh:
  assumes "detect_isIosDevice (navigator d)"
  shows "clearAllBodyScrollLocks (module_load d) = Inr (module_load d)"
proof -
  have "isIosDevice (module_load d)"
    using assms by simp
  moreover have "\<forall>t \<in> set (allTargetElements (module_load d)). truthy t"
    by simp
  ultimately have "clearAllBodyScrollLocks (module_load d) =
     Inr ((module_load d)
       \<lparr>body_listeners := fold drop_handler (map snd (handlers (module_load d)))
                            (body_listeners (module_load d)),
        handlers := [],
        elements := fold null_callbacks (allTargetElements (module_load d))
                      (elements (module_load d)),
        allTargetElements := [],
        initialClientY := - 1,
        firstTargetElement := Null\<rparr>)"
    by (rule touch_clear_ok)
  then show ?thesis
    by (simp add: module_load_def)
qed

lemma std_fresh_settled:
  "(restoreOverflowSetting_callback (module_load d))\<lparr>timers := [], firstTargetElement := Null\<rparr>
   = module_load d"
  "runAllTimers (module_load d) = module_load d"
  by (simp_all add: restore_nothing_held runAllTimers_def)

lemma std_clear_fresh:
  assumes "\<not> detect_isIosDevice (navigator d)"
  shows "runAllTimers (state_of (clearAllBodyScrollLocks (module_load d))) = module_load d"
proof -
  have "\<not> isIosDevice (module_load d)"
    using assms by simp
  from std_clear_settled [OF this] show ?thesis
    by (simp add: std_fresh_settled)
qed

lemma std_unlock_fresh:
  assumes "\<not> detect_isIosDevice (navigator d)"
  shows "runAllTimers (state_of (enableBodyScroll t (module_load d))) = module_load d"
proof (cases "t = Null")
  case True
  have "\<not> isIosDevice (module_load d)" "timers (module_load d) = []"
    "firstTargetElement (module_load d) = t"
    using assms True by simp_all
  from std_unlock_settled [OF this] show ?thesis
    by (simp add: std_fresh_settled)
next
  case False
  have "\<not> isIosDevice (module_load d)"
    using assms by simp
  from std_unlock [OF this, of t] False show ?thesis
    by (simp add: std_fresh_settled)
qed

lemma touch_unlock_unregistered:
  assumes "isIosDevice s" and "Elem n \<notin> set (allTargetElements s)"
  shows "enableBodyScroll (Elem n) s =
     Inr (s\<lparr>elements := (elements s)
            (n := (elements s n)\<lparr>ontouchstart := None, ontouchmove := None\<rparr>)\<rparr>)"
proof -
  have "filter (\<lambda>elem. elem \<noteq> Elem n) (allTargetElements s) = allTargetElements s"
    using assms(2) by (auto simp add: filter_id_conv)
  then show ?thesis
    using assms(2) by (simp add: touch_unlock_element [OF assms(1)])
qed

lemma unlock_element_returns:
  assumes "truthy t \<or> \<not> isIosDevice s"
  shows "\<not> raises (enableBodyScroll t s)"
proof (cases "isIosDevice s")
  case False
  then show ?thesis by (simp add: std_unlock)
next
  case True
  with assms obtain n where "t = Elem n"
    by (cases t) simp_all
  then show ?thesis
    by (simp add: touch_unlock_element [OF True])
qed

lemma clear_returns:
  assumes "pristine d"
  shows "\<not> raises (clearAllBodyScrollLocks (run as (module_load d)))"
proof (cases "isIosDevice (run as (module_load d))")
  case False
  then show ?thesis by (simp add: std_clear)
next
  case True
  have "registry_inv d (run as (module_load d))"
    by (rule registry_inv_reachable [OF assms])
  then have "\<forall>t \<in> set (allTargetElements (run as (module_load d))). truthy t"
    by (simp add: registry_inv_def)
  from touch_clear_ok [OF True this] show ?thesis
    by simp
qed

text \<open>
  Claim C3, as the code has it.  \<^verbatim>\<open>disableBodyScroll\<close> has no statement that can throw
  (it touches the target only behind the \<^verbatim>\<open>targetElement &&\<close> guard), so it is a total
  function here.  \<^verbatim>\<open>clearAllBodyScrollLocks\<close> returns normally in every state the module
  reaches, and \<^verbatim>\<open>enableBodyScroll\<close> returns normally whenever its target is an element or
  the platform is standard.  The calls that change nothing, or nearly nothing:
  \<^item> touch platform, lock with an absent or an already registered target: nothing changes
    except that the target is recorded as \<open>firstTargetElement\<close> when none is set;
  \<^item> touch platform, unlock of an element that is not registered: only the two gesture
    callbacks of that element are set to \<^verbatim>\<open>null\<close>;
  \<^item> standard platform, unlock of anything but \<open>firstTargetElement\<close>: nothing changes;
  \<^item> a freshly loaded module: unlock-all changes nothing, and on the standard platform
    neither does any unlock (once the queued callback has run).

  On the standard platform a lock call always queues the callback that hides the overflow,
  whatever its target, an absent one included.
\<close>

theorem operations_on_invalid_input:
  "(pristine d \<longrightarrow> \<not> raises (clearAllBodyScrollLocks (run as (module_load d))))
   \<and> (truthy t \<or> \<not> isIosDevice s \<longrightarrow> \<not> raises (enableBodyScroll t s))
   \<and> (isIosDevice s \<and> (\<not> truthy t \<or> t \<in> set (allTargetElements s)) \<longrightarrow>
        disableBodyScroll t options s =
          s\<lparr>firstTargetElement :=
               (if truthy (firstTargetElement s) then firstTargetElement s else t)\<rparr>)
   \<and> (isIosDevice s \<and> Elem n \<notin> set (allTargetElements s) \<longrightarrow>
        enableBodyScroll (Elem n) s =
          Inr (s\<lparr>elements := (elements s)
                 (n := (elements s n)\<lparr>ontouchstart := None, ontouchmove := None\<rparr>)\<rparr>))
   \<and> (\<not> isIosDevice s \<and> t \<noteq> firstTargetElement s \<longrightarrow> enableBodyScroll t s = Inr s)
   \<and> (\<not> isIosDevice s \<longrightarrow>
        disableBodyScroll t options s =
          s\<lparr>timers := timers s @ [SetOverflowHiddenTimer options],
            firstTargetElement :=
               (if truthy (firstTargetElement s) then firstTargetElement s else t)\<rparr>)
   \<and> (detect_isIosDevice (navigator d) \<longrightarrow>
        clearAllBodyScrollLocks (module_load d) = Inr (module_load d))
   \<and> (\<not> detect_isIosDevice (navigator d) \<longrightarrow>
        runAllTimers (state_of (clearAllBodyScrollLocks (module_load d))) = module_load d
        \<and> runAllTimers (state_of (enableBodyScroll t (module_load d))) = module_load d)"
proof -
  have "enableBodyScroll t s = Inr s" if "\<not> isIosDevice s \<and> t \<noteq> firstTargetElement s"
    using that by (auto simp add: std_unlock)
  then show ?thesis
    using clear_returns [of d as] unlock_element_returns [of t s]
      touch_lock_old [of s t options] touch_unlock_unregistered [of s n]
      std_lock [of s t options] touch_clear_fresh [of d] std_clear_fresh [of d]
      std_unlock_fresh [of d t]
    by blast
qed

theorem operations_on_invalid_input_witness:
  "\<not> raises (clearAllBodyScrollLocks
       (run [Lock (Elem 1) None, Lock Null None, Unlock (Elem 2)] (module_load (page iPhone 1015))))
   \<and> \<not> raises (enableBodyScroll (Elem 2) (module_load (page iPhone 1015)))
   \<and> disableBodyScroll Undefined None (module_load (page iPhone 1015))
       = (module_load (page iPhone 1015))\<lparr>firstTargetElement := Undefined\<rparr>
   \<and> enableBodyScroll (Elem 2) (module_load (page desktop 1015))
       = Inr (module_load (page desktop 1015))
   \<and> clearAllBodyScrollLocks (module_load (page iPhone 1015))
       = Inr (module_load (page iPhone 1015))
   \<and> runAllTimers (state_of (clearAllBodyScrollLocks (module_load (page desktop 1015))))
       = module_load (page desktop 1015)"
proof -
  let ?t = "module_load (page iPhone 1015)"
  let ?s = "module_load (page desktop 1015)"
  have p: "pristine (page iPhone 1015)" by simp
  have touch: "isIosDevice ?t" "detect_isIosDevice (navigator (page iPhone 1015))"
    and std: "\<not> isIosDevice ?s" "\<not> detect_isIosDevice (navigator (page desktop 1015))"
    by simp_all
  have el: "truthy (Elem 2)" and absent: "\<not> truthy Undefined"
    and other: "Elem 2 \<noteq> firstTargetElement ?s"
    and first: "(if truthy (firstTargetElement ?t) then firstTargetElement ?t else Undefined)
      = Undefined"
    by simp_all
  note A = operations_on_invalid_input [of "page iPhone 1015"
      "[Lock (Elem 1) None, Lock Null None, Unlock (Elem 2)]" "Elem 2" ?t]
  note B = operations_on_invalid_input [of "page iPhone 1015" "[]" Undefined ?t None]
  note C = operations_on_invalid_input [of "page desktop 1015" "[]" "Elem 2" ?s]
  from A p have c1: "\<not> raises (clearAllBodyScrollLocks
       (run [Lock (Elem 1) None, Lock Null None, Unlock (Elem 2)] ?t))"
    by blast
  from A el have c2: "\<not> raises (enableBodyScroll (Elem 2) ?t)"
    by blast
  from B touch absent have "disableBodyScroll Undefined None ?t
      = ?t\<lparr>firstTargetElement :=
            (if truthy (firstTargetElement ?t) then firstTargetElement ?t else Undefined)\<rparr>"
    by blast
  then have c3: "disableBodyScroll Undefined None ?t = ?t\<lparr>firstTargetElement := Undefined\<rparr>"
    by (simp only: first)
  from C std other have c4: "enableBodyScroll (Elem 2) ?s = Inr ?s"
    by blast
  from B touch have c5: "clearAllBodyScrollLocks ?t = Inr ?t"
    by blast
  from C std have c6: "runAllTimers (state_of (clearAllBodyScrollLocks ?s)) = ?s"
    by blast
  show ?thesis
    using c1 c2 c3 c4 c5 c6 by blast
qed

text \<open>The claim as worded fails in three ways.  On the touch platform, unlocking with an
  absent target throws at \<^verbatim>\<open>targetElement.ontouchstart = null\<close>.  On the standard
  platform, a lock with an absent target hides the overflow all the same.  On the touch
  platform, unlocking an element that was never locked removes an \<^verbatim>\<open>ontouchstart\<close>
  callback that the page had put on it.\<close>

theorem operations_on_invalid_input_counterexample:
  "raises (enableBodyScroll Null (module_load (page iPhone 1015)))
   \<and> body_overflow (module_load (page desktop 1015)) = ''auto''
   \<and> body_overflow
       (runAllTimers (disableBodyScroll Undefined None (module_load (page desktop 1015))))
     = ''hidden''
   \<and> ontouchstart (elements (module_load (page iPhone 1015)) 3) = Some (ForeignCallback 7)
   \<and> \<not> raises (enableBodyScroll (Elem 3) (module_load (page iPhone 1015)))
   \<and> ontouchstart
       (elements (state_of (enableBodyScroll (Elem 3) (module_load (page iPhone 1015)))) 3)
     = None"
proof -
  let ?t = "module_load (page iPhone 1015)"
  let ?s = "module_load (page desktop 1015)"
  have touch: "isIosDevice ?t" and std: "\<not> isIosDevice ?s" and q: "timers ?s = []"
    by simp_all
  have "raises (enableBodyScroll Null ?t)"
    by (simp add: touch_unlock_absent [OF touch])
  moreover have "body_overflow (runAllTimers (disableBodyScroll Undefined None ?s)) = ''hidden''"
    by (simp add: std_lock_settled [OF std q] hidden_overflow)
  moreover have "ontouchstart (elements ?t 3) = Some (ForeignCallback 7)"
    by (simp add: plain_element_def)
  moreover have "enableBodyScroll (Elem 3) ?t =
     Inr (?t\<lparr>elements := (elements ?t)
            (3 := (elements ?t 3)\<lparr>ontouchstart := None, ontouchmove := None\<rparr>)\<rparr>)"
    by (rule touch_unlock_unregistered [OF touch]) simp
  ultimately show ?thesis
    by simp
qed

section \<open>Registered elements carry the gesture callbacks\<close>










lemma own_body_handler_passes:
  "node_contains s n (event_target event) \<Longrightarrow> body_handler_callback (Elem n) event s = Inr event"
  by (simp add: body_handler_callback_def)

lemma other_body_handler_prevents:
  "\<not> node_contains s m (event_target event) \<Longrightarrow>
   body_handler_callback (Elem m) event s = Inr (event\<lparr>defaultPrevented := True\<rparr>)"
  by (simp add: body_handler_callback_def)

section \<open>Options on the touch path\<close>

text \<open>
  Claim C10.  On the touch platform the options of a lock call are never read: whatever
  two option values are passed, the resulting states are equal, and the call neither
  changes the trailing padding of the body nor queues a timer that could.  In every state
  the module reaches on the touch platform the trailing padding is the one the document
  had when the module was loaded, and no timer is waiting.
\<close>

theorem touch_lock_ignores_options:
  "(isIosDevice s \<longrightarrow>
      disableBodyScroll t o1 s = disableBodyScroll t o2 s
      \<and> body_paddingRight (disableBodyScroll t o1 s) = body_paddingRight s
      \<and> timers (disableBodyScroll t o1 s) = timers s)
   \<and> (pristine d \<and> detect_isIosDevice (navigator d) \<longrightarrow>
        body_paddingRight (run as (module_load d)) = body_paddingRight d
        \<and> timers (run as (module_load d)) = [])"
proof -
  have "disableBodyScroll t o1 s = disableBodyScroll t o2 s
      \<and> body_paddingRight (disableBodyScroll t o1 s) = body_paddingRight s
      \<and> timers (disableBodyScroll t o1 s) = timers s"
    if "isIosDevice s"
    using that by (simp add: disableBodyScroll_def Let_def split: jsval.splits)
  moreover have "body_paddingRight (run as (module_load d)) = body_paddingRight d
        \<and> timers (run as (module_load d)) = []"
    if h: "pristine d \<and> detect_isIosDevice (navigator d)"
  proof -
    let ?s = "run as (module_load d)"
    have "isIosDevice ?s"
      using h by simp
    moreover have "registry_inv d ?s"
      using h by (simp add: registry_inv_reachable)
    ultimately have "timers ?s = []" "previousBodyPaddingRight ?s = None"
      by (simp_all add: registry_inv_def)
    moreover have "styles_kept d ?s"
      by (rule styles_kept_reachable)
    ultimately show ?thesis
      by (simp add: styles_kept_def)
  qed
  ultimately show ?thesis
    by blast
qed

theorem touch_lock_ignores_options_witness:
  "disableBodyScroll (Elem 1) gap_option (module_load (page iPhone 1015))
     = disableBodyScroll (Elem 1) None (module_load (page iPhone 1015))
   \<and> body_paddingRight
       (run [Lock (Elem 1) gap_option, RunTimer, Unlock (Elem 1)] (module_load (page iPhone 1015)))
     = ''3px''"
proof -
  have touch: "isIosDevice (module_load (page iPhone 1015))"
    and p: "pristine (page iPhone 1015) \<and> detect_isIosDevice (navigator (page iPhone 1015))"
    and v: "body_paddingRight (page iPhone 1015) = ''3px''"
    by simp_all
  note A = touch_lock_ignores_options [of "module_load (page iPhone 1015)" "Elem 1" gap_option
      None "page iPhone 1015" "[Lock (Elem 1) gap_option, RunTimer, Unlock (Elem 1)]"]
  from A touch have c1: "disableBodyScroll (Elem 1) gap_option (module_load (page iPhone 1015))
     = disableBodyScroll (Elem 1) None (module_load (page iPhone 1015))"
    by blast
  from A p have c2: "body_paddingRight
       (run [Lock (Elem 1) gap_option, RunTimer, Unlock (Elem 1)] (module_load (page iPhone 1015)))
     = body_paddingRight (page iPhone 1015)"
    by blast
  show ?thesis
    using c1 c2 by (simp only: v)
qed

section \<open>Reserving the scrollbar gap\<close>

text \<open>
  Claim C7, as the code has it.  On the standard platform, once the callback queued by a
  lock call has run, the trailing padding of the body is the measured gap followed by
  \<open>px\<close> exactly when \<open>reserveScrollBarGap\<close> is \<open>true\<close>, the gap
  \<open>innerWidth - clientWidth\<close> is positive (the code tests \<open>> 0\<close>, so a negative gap
  reserves nothing) and no padding is held in \<open>previousBodyPaddingRight\<close>; in every other
  case, with the option false or omitted in particular, padding and held value stay as they
  were.  The matching unlock puts the padding back to its value before the lock when the
  locked target is the first target (none was set before the lock, or this one was) and no
  padding was held before the lock.  While another target is the first target, the matching
  unlock changes nothing at all, so the padding the lock added stays.
\<close>

theorem reserve_gap_padding:
  assumes "\<not> isIosDevice s" and "timers s = []"
  shows "(if (\<exists>opt. options = Some opt \<and> reserveScrollBarGap opt = Some True)
             \<and> 0 < innerWidth s - documentElement_clientWidth s
             \<and> previousBodyPaddingRight s = None
          then body_paddingRight (runAllTimers (disableBodyScroll t options s))
                 = string_of_int (innerWidth s - documentElement_clientWidth s) @ ''px''
               \<and> previousBodyPaddingRight (runAllTimers (disableBodyScroll t options s))
                 = Some (body_paddingRight s)
          else body_paddingRight (runAllTimers (disableBodyScroll t options s))
                 = body_paddingRight s
               \<and> previousBodyPaddingRight (runAllTimers (disableBodyScroll t options s))
                 = previousBodyPaddingRight s)
       \<and> ((\<not> truthy (firstTargetElement s) \<or> firstTargetElement s = t)
            \<and> previousBodyPaddingRight s = None \<longrightarrow>
            body_paddingRight
              (runAllTimers (state_of (enableBodyScroll t
                 (runAllTimers (disableBodyScroll t options s)))))
              = body_paddingRight s)
       \<and> (truthy (firstTargetElement s) \<and> firstTargetElement s \<noteq> t \<longrightarrow>
            enableBodyScroll t (runAllTimers (disableBodyScroll t options s))
              = Inr (runAllTimers (disableBodyScroll t options s)))"
proof -
  define s1 where "s1 = runAllTimers (disableBodyScroll t options s)"
  have s1: "s1 = (setOverflowHidden_callback options s)
       \<lparr>timers := [],
        firstTargetElement := (if truthy (firstTargetElement s) then firstTargetElement s else t)\<rparr>"
    unfolding s1_def by (rule std_lock_settled [OF assms])
  have gap: "reserves_gap options s \<longleftrightarrow>
      (\<exists>opt. options = Some opt \<and> reserveScrollBarGap opt = Some True)
      \<and> 0 < innerWidth s - documentElement_clientWidth s
      \<and> previousBodyPaddingRight s = None"
    by (simp add: reserves_gap_def)
  have p1: "body_paddingRight s1 =
      (if reserves_gap options s
       then string_of_int (innerWidth s - documentElement_clientWidth s) @ ''px''
       else body_paddingRight s)"
    and p2: "previousBodyPaddingRight s1 =
      (if reserves_gap options s then Some (body_paddingRight s) else previousBodyPaddingRight s)"
    by (simp_all add: s1 hidden_padding)
  have std1: "\<not> isIosDevice s1" "timers s1 = []"
    using assms by (simp_all add: s1)
  have first: "(if reserves_gap options s
          then body_paddingRight s1
                 = string_of_int (innerWidth s - documentElement_clientWidth s) @ ''px''
               \<and> previousBodyPaddingRight s1 = Some (body_paddingRight s)
          else body_paddingRight s1 = body_paddingRight s
               \<and> previousBodyPaddingRight s1 = previousBodyPaddingRight s)"
    by (simp add: p1 p2)
  have second: "body_paddingRight (runAllTimers (state_of (enableBodyScroll t s1)))
      = body_paddingRight s"
    if h: "(\<not> truthy (firstTargetElement s) \<or> firstTargetElement s = t)
        \<and> previousBodyPaddingRight s = None"
  proof -
    have f1: "firstTargetElement s1 = t"
      using h by (auto simp add: s1)
    have "runAllTimers (state_of (enableBodyScroll t s1))
        = (restoreOverflowSetting_callback s1)\<lparr>timers := [], firstTargetElement := Null\<rparr>"
      by (rule std_unlock_settled [OF std1 f1])
    then show ?thesis
      using h by (simp add: restore_padding p1 p2)
  qed
  have third: "enableBodyScroll t s1 = Inr s1"
    if h: "truthy (firstTargetElement s) \<and> firstTargetElement s \<noteq> t"
  proof -
    have "firstTargetElement s1 \<noteq> t"
      using h by (simp add: s1)
    then show ?thesis
      by (auto simp add: std_unlock [OF std1(1)])
  qed
  show ?thesis
    using first second third unfolding gap s1_def by blast
qed

lemma desktop_first_locked:
  "\<not> isIosDevice (run [Lock (Elem 1) None, RunTimer] (module_load (page desktop 1015)))"
  "timers (run [Lock (Elem 1) None, RunTimer] (module_load (page desktop 1015))) = []"
  "firstTargetElement (run [Lock (Elem 1) None, RunTimer] (module_load (page desktop 1015)))
     = Elem 1"
  "previousBodyPaddingRight (run [Lock (Elem 1) None, RunTimer] (module_load (page desktop 1015)))
     = None"
  "body_paddingRight (run [Lock (Elem 1) None, RunTimer] (module_load (page desktop 1015)))
     = ''3px''"
  "innerWidth (run [Lock (Elem 1) None, RunTimer] (module_load (page desktop 1015))) = 1015"
  "documentElement_clientWidth
     (run [Lock (Elem 1) None, RunTimer] (module_load (page desktop 1015))) = 1000"
  by (simp_all add: std_lock runNextTimer_alt hidden_padding reserves_gap_def)

theorem reserve_gap_padding_witness:
  "body_paddingRight
     (runAllTimers (disableBodyScroll (Elem 1) gap_option (module_load (page desktop 1015))))
     = ''15px''
   \<and> body_paddingRight
       (runAllTimers (state_of (enableBodyScroll (Elem 1)
          (runAllTimers (disableBodyScroll (Elem 1) gap_option
             (module_load (page desktop 1015)))))))
     = ''3px''
   \<and> body_paddingRight
       (runAllTimers (disableBodyScroll (Elem 1) None (module_load (page desktop 1015))))
     = ''3px''
   \<and> enableBodyScroll (Elem 2)
       (runAllTimers (disableBodyScroll (Elem 2) gap_option
          (run [Lock (Elem 1) None, RunTimer] (module_load (page desktop 1015)))))
     = Inr (runAllTimers (disableBodyScroll (Elem 2) gap_option
          (run [Lock (Elem 1) None, RunTimer] (module_load (page desktop 1015)))))"
proof -
  let ?s = "module_load (page desktop 1015)"
  let ?l = "run [Lock (Elem 1) None, RunTimer] (module_load (page desktop 1015))"
  have std: "\<not> isIosDevice ?s" and q: "timers ?s = []"
    by simp_all
  have yes: "(\<exists>opt. gap_option = Some opt \<and> reserveScrollBarGap opt = Some True)
      \<and> 0 < innerWidth ?s - documentElement_clientWidth ?s
      \<and> previousBodyPaddingRight ?s = None"
    by (simp add: gap_option_def)
  have no: "\<not> ((\<exists>opt. None = Some opt \<and> reserveScrollBarGap opt = Some True)
      \<and> 0 < innerWidth ?s - documentElement_clientWidth ?s
      \<and> previousBodyPaddingRight ?s = None)"
    by simp
  have fresh: "(\<not> truthy (firstTargetElement ?s) \<or> firstTargetElement ?s = Elem 1)
      \<and> previousBodyPaddingRight ?s = None"
    by simp
  have other: "truthy (firstTargetElement ?l) \<and> firstTargetElement ?l \<noteq> Elem 2"
    by (simp only: desktop_first_locked) simp
  have v: "string_of_int (innerWidth ?s - documentElement_clientWidth ?s) @ ''px'' = ''15px''"
    "body_paddingRight ?s = ''3px''"
    by (simp_all add: string_of_int_def digit_char_def)
  note A = reserve_gap_padding [OF std q, of gap_option "Elem 1"]
  note B = reserve_gap_padding [OF std q, of None "Elem 1"]
  note C = reserve_gap_padding [OF desktop_first_locked(1,2), of gap_option "Elem 2"]
  from A yes have c1: "body_paddingRight
       (runAllTimers (disableBodyScroll (Elem 1) gap_option ?s))
       = string_of_int (innerWidth ?s - documentElement_clientWidth ?s) @ ''px''"
    by (simp only: if_True)
  from A fresh have c2: "body_paddingRight
       (runAllTimers (state_of (enableBodyScroll (Elem 1)
          (runAllTimers (disableBodyScroll (Elem 1) gap_option ?s)))))
       = body_paddingRight ?s"
    by blast
  from B [unfolded if_not_P [OF no]] have c3: "body_paddingRight
       (runAllTimers (disableBodyScroll (Elem 1) None ?s)) = body_paddingRight ?s"
    by blast
  from C other have c4: "enableBodyScroll (Elem 2)
       (runAllTimers (disableBodyScroll (Elem 2) gap_option ?l))
     = Inr (runAllTimers (disableBodyScroll (Elem 2) gap_option ?l))"
    by blast
  show ?thesis
    using c1 c2 c3 c4 by (simp only: v)
qed

text \<open>The claim as the specification words it fails twice.  It asks for a non-zero gap:
  with a viewport three units narrower than the root element the gap is \<open>-3\<close>, non-zero,
  the option is \<open>true\<close>, nothing is reserved, and still no padding is added.  And it has
  the matching unlock restore the padding: with element 1 locked first, a lock of element 2
  with the option set turns the padding from \<open>3px\<close> into \<open>15px\<close>, and the unlock of
  element 2 leaves \<open>15px\<close>.\<close>

theorem reserve_gap_nonzero_counterexample:
  "\<not> isIosDevice (module_load (page desktop 997))
   \<and> gap_option = Some \<lparr>reserveScrollBarGap = Some True\<rparr>
   \<and> innerWidth (module_load (page desktop 997))
       - documentElement_clientWidth (module_load (page desktop 997)) \<noteq> 0
   \<and> previousBodyPaddingRight (module_load (page desktop 997)) = None
   \<and> body_paddingRight
       (runAllTimers (disableBodyScroll (Elem 1) gap_option (module_load (page desktop 997))))
     = body_paddingRight (module_load (page desktop 997))
   \<and> previousBodyPaddingRight
       (runAllTimers (disableBodyScroll (Elem 1) gap_option (module_load (page desktop 997))))
     = None
   \<and> body_paddingRight (run [Lock (Elem 1) None, RunTimer] (module_load (page desktop 1015)))
     = ''3px''
   \<and> body_paddingRight
       (runAllTimers (disableBodyScroll (Elem 2) gap_option
          (run [Lock (Elem 1) None, RunTimer] (module_load (page desktop 1015)))))
     = ''15px''
   \<and> body_paddingRight
       (runAllTimers (state_of (enableBodyScroll (Elem 2)
          (runAllTimers (disableBodyScroll (Elem 2) gap_option
             (run [Lock (Elem 1) None, RunTimer] (module_load (page desktop 1015))))))))
     = ''15px''"
proof -
  let ?s = "module_load (page desktop 997)"
  have neg: "runAllTimers (disableBodyScroll (Elem 1) gap_option ?s)
      = (setOverflowHidden_callback gap_option ?s)\<lparr>timers := [], firstTargetElement := Elem 1\<rparr>"
    by (subst std_lock_settled) simp_all
  have nogap: "\<not> reserves_gap gap_option ?s"
    by (simp add: reserves_gap_def)
  define l where "l = run [Lock (Elem 1) None, RunTimer] (module_load (page desktop 1015))"
  note f = desktop_first_locked [folded l_def]
  define s1 where "s1 = runAllTimers (disableBodyScroll (Elem 2) gap_option l)"
  have s1: "s1 = (setOverflowHidden_callback gap_option l)
      \<lparr>timers := [], firstTargetElement := (if truthy (firstTargetElement l) then firstTargetElement l else Elem 2)\<rparr>"
    unfolding s1_def by (rule std_lock_settled [OF f(1,2)])
  have gap: "reserves_gap gap_option l"
    by (simp add: reserves_gap_def f gap_option_def)
  have p1: "body_paddingRight s1 = ''15px''"
    by (simp add: s1 hidden_padding gap f string_of_int_def digit_char_def)
  have "\<not> isIosDevice s1" "firstTargetElement s1 \<noteq> Elem 2"
    by (simp_all add: s1 f)
  then have "enableBodyScroll (Elem 2) s1 = Inr s1"
    by (auto simp add: std_unlock)
  moreover have "runAllTimers s1 = s1"
    by (simp add: runAllTimers_def s1)
  ultimately have p2: "body_paddingRight (runAllTimers (state_of (enableBodyScroll (Elem 2) s1)))
      = ''15px''"
    by (simp add: p1)
  have a: "\<not> isIosDevice ?s
   \<and> gap_option = Some \<lparr>reserveScrollBarGap = Some True\<rparr>
   \<and> innerWidth ?s - documentElement_clientWidth ?s \<noteq> 0
   \<and> previousBodyPaddingRight ?s = None
   \<and> body_paddingRight (runAllTimers (disableBodyScroll (Elem 1) gap_option ?s))
     = body_paddingRight ?s
   \<and> previousBodyPaddingRight (runAllTimers (disableBodyScroll (Elem 1) gap_option ?s)) = None"
    using neg nogap by (simp add: hidden_padding gap_option_def)
  show ?thesis
    using a f(5) p1 p2 unfolding s1_def l_def by blast
qed

section \<open>Dispatching a touchmove\<close>



















end
